theory Spec2Isabelle
  imports Complex_Main
begin

section \<open>Python strings\<close>

text \<open>
  A Python \<open>str\<close> is a sequence of Unicode code points: \<open>len\<close> counts code points and
  a regular-expression character class tests one code point. Texts are therefore lists
  of code points (natural numbers). Language codes (\<open>'zh'\<close>, \<open>'en'\<close>, \<open>'auto'\<close>) stay
  Isabelle strings.

  The character tables are those of Unicode 14.0 (Python 3.11): \<open>str.isspace\<close> (which is
  also the class \<open>\\s\<close>), the decimal digits of the class \<open>\\d\<close> and the word characters
  of the class \<open>\\w\<close>.
\<close>

type_synonym ustr = "nat list"

definition ascii :: "string \<Rightarrow> ustr" where
  "ascii s = map of_char s"

definition is_upper :: "nat \<Rightarrow> bool" where
  "is_upper c = (65 \<le> c \<and> c \<le> 90)"

definition is_lower :: "nat \<Rightarrow> bool" where
  "is_lower c = (97 \<le> c \<and> c \<le> 122)"

text \<open>
  \<open>lower\<close> folds the ASCII letters. It stands for \<open>str.lower\<close> where both decide the
  same: in the keyword tests and in the test of the file extension, whose keywords are
  ASCII or have no case (no other character lower-cases to a part of one of them). The
  key of an action item, which compares arbitrary descriptions, takes \<open>str.lower\<close>
  from the world (\<open>str_lower\<close> below).
\<close>

definition lower_cp :: "nat \<Rightarrow> nat" where
  "lower_cp c = (if is_upper c then c + 32 else c)"

definition lower :: "ustr \<Rightarrow> ustr" where
  "lower s = map lower_cp s"

text \<open>\<open>str.isspace\<close>, which is also the class \<open>\\s\<close> of a \<open>str\<close> pattern.\<close>

definition is_space :: "nat \<Rightarrow> bool" where
  "is_space c = ((9 \<le> c \<and> c \<le> 13) \<or> (28 \<le> c \<and> c \<le> 32) \<or> c = 133 \<or> c = 160
     \<or> c = 5760 \<or> (8192 \<le> c \<and> c \<le> 8202) \<or> c = 8232 \<or> c = 8233 \<or> c = 8239
     \<or> c = 8287 \<or> c = 12288)"

definition in_ranges :: "(nat \<times> nat) list \<Rightarrow> nat \<Rightarrow> bool" where
  "in_ranges rs c = list_ex (\<lambda>r. fst r \<le> c \<and> c \<le> snd r) rs"

text \<open>The decimal digits beyond ASCII (the class \<open>\\d\<close> matches every decimal digit).\<close>

definition decimal_ranges :: "(nat \<times> nat) list" where
  "decimal_ranges =
    [(0x660, 0x669), (0x6F0, 0x6F9), (0x7C0, 0x7C9), (0x966, 0x96F), (0x9E6, 0x9EF),
     (0xA66, 0xA6F), (0xAE6, 0xAEF), (0xB66, 0xB6F), (0xBE6, 0xBEF), (0xC66, 0xC6F),
     (0xCE6, 0xCEF), (0xD66, 0xD6F), (0xDE6, 0xDEF), (0xE50, 0xE59), (0xED0, 0xED9),
     (0xF20, 0xF29), (0x1040, 0x1049), (0x1090, 0x1099), (0x17E0, 0x17E9), (0x1810, 0x1819),
     (0x1946, 0x194F), (0x19D0, 0x19D9), (0x1A80, 0x1A89), (0x1A90, 0x1A99), (0x1B50, 0x1B59),
     (0x1BB0, 0x1BB9), (0x1C40, 0x1C49), (0x1C50, 0x1C59), (0xA620, 0xA629), (0xA8D0, 0xA8D9),
     (0xA900, 0xA909), (0xA9D0, 0xA9D9), (0xA9F0, 0xA9F9), (0xAA50, 0xAA59), (0xABF0, 0xABF9),
     (0xFF10, 0xFF19), (0x104A0, 0x104A9), (0x10D30, 0x10D39), (0x11066, 0x1106F),
     (0x110F0, 0x110F9), (0x11136, 0x1113F), (0x111D0, 0x111D9), (0x112F0, 0x112F9),
     (0x11450, 0x11459), (0x114D0, 0x114D9), (0x11650, 0x11659), (0x116C0, 0x116C9),
     (0x11730, 0x11739), (0x118E0, 0x118E9), (0x11950, 0x11959), (0x11C50, 0x11C59),
     (0x11D50, 0x11D59), (0x11DA0, 0x11DA9), (0x16A60, 0x16A69), (0x16AC0, 0x16AC9),
     (0x16B50, 0x16B59), (0x1D7CE, 0x1D7FF), (0x1E140, 0x1E149), (0x1E2F0, 0x1E2F9),
     (0x1E950, 0x1E959), (0x1FBF0, 0x1FBF9)]"

definition is_digit :: "nat \<Rightarrow> bool" where
  "is_digit c = (if c < 128 then 48 \<le> c \<and> c \<le> 57 else in_ranges decimal_ranges c)"

text \<open>The word characters beyond ASCII (alphanumeric characters; the class \<open>\\w\<close> adds the underscore).\<close>

definition word_ranges :: "(nat \<times> nat) list" where
  "word_ranges =
    [(0xAA, 0xAA), (0xB2, 0xB3), (0xB5, 0xB5), (0xB9, 0xBA), (0xBC, 0xBE), (0xC0, 0xD6),
     (0xD8, 0xF6), (0xF8, 0x2C1), (0x2C6, 0x2D1), (0x2E0, 0x2E4), (0x2EC, 0x2EC), (0x2EE, 0x2EE),
     (0x370, 0x374), (0x376, 0x377), (0x37A, 0x37D), (0x37F, 0x37F), (0x386, 0x386),
     (0x388, 0x38A), (0x38C, 0x38C), (0x38E, 0x3A1), (0x3A3, 0x3F5), (0x3F7, 0x481),
     (0x48A, 0x52F), (0x531, 0x556), (0x559, 0x559), (0x560, 0x588), (0x5D0, 0x5EA),
     (0x5EF, 0x5F2), (0x620, 0x64A), (0x660, 0x669), (0x66E, 0x66F), (0x671, 0x6D3),
     (0x6D5, 0x6D5), (0x6E5, 0x6E6), (0x6EE, 0x6FC), (0x6FF, 0x6FF), (0x710, 0x710),
     (0x712, 0x72F), (0x74D, 0x7A5), (0x7B1, 0x7B1), (0x7C0, 0x7EA), (0x7F4, 0x7F5),
     (0x7FA, 0x7FA), (0x800, 0x815), (0x81A, 0x81A), (0x824, 0x824), (0x828, 0x828),
     (0x840, 0x858), (0x860, 0x86A), (0x870, 0x887), (0x889, 0x88E), (0x8A0, 0x8C9),
     (0x904, 0x939), (0x93D, 0x93D), (0x950, 0x950), (0x958, 0x961), (0x966, 0x96F),
     (0x971, 0x980), (0x985, 0x98C), (0x98F, 0x990), (0x993, 0x9A8), (0x9AA, 0x9B0),
     (0x9B2, 0x9B2), (0x9B6, 0x9B9), (0x9BD, 0x9BD), (0x9CE, 0x9CE), (0x9DC, 0x9DD),
     (0x9DF, 0x9E1), (0x9E6, 0x9F1), (0x9F4, 0x9F9), (0x9FC, 0x9FC), (0xA05, 0xA0A),
     (0xA0F, 0xA10), (0xA13, 0xA28), (0xA2A, 0xA30), (0xA32, 0xA33), (0xA35, 0xA36),
     (0xA38, 0xA39), (0xA59, 0xA5C), (0xA5E, 0xA5E), (0xA66, 0xA6F), (0xA72, 0xA74),
     (0xA85, 0xA8D), (0xA8F, 0xA91), (0xA93, 0xAA8), (0xAAA, 0xAB0), (0xAB2, 0xAB3),
     (0xAB5, 0xAB9), (0xABD, 0xABD), (0xAD0, 0xAD0), (0xAE0, 0xAE1), (0xAE6, 0xAEF),
     (0xAF9, 0xAF9), (0xB05, 0xB0C), (0xB0F, 0xB10), (0xB13, 0xB28), (0xB2A, 0xB30),
     (0xB32, 0xB33), (0xB35, 0xB39), (0xB3D, 0xB3D), (0xB5C, 0xB5D), (0xB5F, 0xB61),
     (0xB66, 0xB6F), (0xB71, 0xB77), (0xB83, 0xB83), (0xB85, 0xB8A), (0xB8E, 0xB90),
     (0xB92, 0xB95), (0xB99, 0xB9A), (0xB9C, 0xB9C), (0xB9E, 0xB9F), (0xBA3, 0xBA4),
     (0xBA8, 0xBAA), (0xBAE, 0xBB9), (0xBD0, 0xBD0), (0xBE6, 0xBF2), (0xC05, 0xC0C),
     (0xC0E, 0xC10), (0xC12, 0xC28), (0xC2A, 0xC39), (0xC3D, 0xC3D), (0xC58, 0xC5A),
     (0xC5D, 0xC5D), (0xC60, 0xC61), (0xC66, 0xC6F), (0xC78, 0xC7E), (0xC80, 0xC80),
     (0xC85, 0xC8C), (0xC8E, 0xC90), (0xC92, 0xCA8), (0xCAA, 0xCB3), (0xCB5, 0xCB9),
     (0xCBD, 0xCBD), (0xCDD, 0xCDE), (0xCE0, 0xCE1), (0xCE6, 0xCEF), (0xCF1, 0xCF2),
     (0xD04, 0xD0C), (0xD0E, 0xD10), (0xD12, 0xD3A), (0xD3D, 0xD3D), (0xD4E, 0xD4E),
     (0xD54, 0xD56), (0xD58, 0xD61), (0xD66, 0xD78), (0xD7A, 0xD7F), (0xD85, 0xD96),
     (0xD9A, 0xDB1), (0xDB3, 0xDBB), (0xDBD, 0xDBD), (0xDC0, 0xDC6), (0xDE6, 0xDEF),
     (0xE01, 0xE30), (0xE32, 0xE33), (0xE40, 0xE46), (0xE50, 0xE59), (0xE81, 0xE82),
     (0xE84, 0xE84), (0xE86, 0xE8A), (0xE8C, 0xEA3), (0xEA5, 0xEA5), (0xEA7, 0xEB0),
     (0xEB2, 0xEB3), (0xEBD, 0xEBD), (0xEC0, 0xEC4), (0xEC6, 0xEC6), (0xED0, 0xED9),
     (0xEDC, 0xEDF), (0xF00, 0xF00), (0xF20, 0xF33), (0xF40, 0xF47), (0xF49, 0xF6C),
     (0xF88, 0xF8C), (0x1000, 0x102A), (0x103F, 0x1049), (0x1050, 0x1055), (0x105A, 0x105D),
     (0x1061, 0x1061), (0x1065, 0x1066), (0x106E, 0x1070), (0x1075, 0x1081), (0x108E, 0x108E),
     (0x1090, 0x1099), (0x10A0, 0x10C5), (0x10C7, 0x10C7), (0x10CD, 0x10CD), (0x10D0, 0x10FA),
     (0x10FC, 0x1248), (0x124A, 0x124D), (0x1250, 0x1256), (0x1258, 0x1258), (0x125A, 0x125D),
     (0x1260, 0x1288), (0x128A, 0x128D), (0x1290, 0x12B0), (0x12B2, 0x12B5), (0x12B8, 0x12BE),
     (0x12C0, 0x12C0), (0x12C2, 0x12C5), (0x12C8, 0x12D6), (0x12D8, 0x1310), (0x1312, 0x1315),
     (0x1318, 0x135A), (0x1369, 0x137C), (0x1380, 0x138F), (0x13A0, 0x13F5), (0x13F8, 0x13FD),
     (0x1401, 0x166C), (0x166F, 0x167F), (0x1681, 0x169A), (0x16A0, 0x16EA), (0x16EE, 0x16F8),
     (0x1700, 0x1711), (0x171F, 0x1731), (0x1740, 0x1751), (0x1760, 0x176C), (0x176E, 0x1770),
     (0x1780, 0x17B3), (0x17D7, 0x17D7), (0x17DC, 0x17DC), (0x17E0, 0x17E9), (0x17F0, 0x17F9),
     (0x1810, 0x1819), (0x1820, 0x1878), (0x1880, 0x1884), (0x1887, 0x18A8), (0x18AA, 0x18AA),
     (0x18B0, 0x18F5), (0x1900, 0x191E), (0x1946, 0x196D), (0x1970, 0x1974), (0x1980, 0x19AB),
     (0x19B0, 0x19C9), (0x19D0, 0x19DA), (0x1A00, 0x1A16), (0x1A20, 0x1A54), (0x1A80, 0x1A89),
     (0x1A90, 0x1A99), (0x1AA7, 0x1AA7), (0x1B05, 0x1B33), (0x1B45, 0x1B4C), (0x1B50, 0x1B59),
     (0x1B83, 0x1BA0), (0x1BAE, 0x1BE5), (0x1C00, 0x1C23), (0x1C40, 0x1C49), (0x1C4D, 0x1C7D),
     (0x1C80, 0x1C88), (0x1C90, 0x1CBA), (0x1CBD, 0x1CBF), (0x1CE9, 0x1CEC), (0x1CEE, 0x1CF3),
     (0x1CF5, 0x1CF6), (0x1CFA, 0x1CFA), (0x1D00, 0x1DBF), (0x1E00, 0x1F15), (0x1F18, 0x1F1D),
     (0x1F20, 0x1F45), (0x1F48, 0x1F4D), (0x1F50, 0x1F57), (0x1F59, 0x1F59), (0x1F5B, 0x1F5B),
     (0x1F5D, 0x1F5D), (0x1F5F, 0x1F7D), (0x1F80, 0x1FB4), (0x1FB6, 0x1FBC), (0x1FBE, 0x1FBE),
     (0x1FC2, 0x1FC4), (0x1FC6, 0x1FCC), (0x1FD0, 0x1FD3), (0x1FD6, 0x1FDB), (0x1FE0, 0x1FEC),
     (0x1FF2, 0x1FF4), (0x1FF6, 0x1FFC), (0x2070, 0x2071), (0x2074, 0x2079), (0x207F, 0x2089),
     (0x2090, 0x209C), (0x2102, 0x2102), (0x2107, 0x2107), (0x210A, 0x2113), (0x2115, 0x2115),
     (0x2119, 0x211D), (0x2124, 0x2124), (0x2126, 0x2126), (0x2128, 0x2128), (0x212A, 0x212D),
     (0x212F, 0x2139), (0x213C, 0x213F), (0x2145, 0x2149), (0x214E, 0x214E), (0x2150, 0x2189),
     (0x2460, 0x249B), (0x24EA, 0x24FF), (0x2776, 0x2793), (0x2C00, 0x2CE4), (0x2CEB, 0x2CEE),
     (0x2CF2, 0x2CF3), (0x2CFD, 0x2CFD), (0x2D00, 0x2D25), (0x2D27, 0x2D27), (0x2D2D, 0x2D2D),
     (0x2D30, 0x2D67), (0x2D6F, 0x2D6F), (0x2D80, 0x2D96), (0x2DA0, 0x2DA6), (0x2DA8, 0x2DAE),
     (0x2DB0, 0x2DB6), (0x2DB8, 0x2DBE), (0x2DC0, 0x2DC6), (0x2DC8, 0x2DCE), (0x2DD0, 0x2DD6),
     (0x2DD8, 0x2DDE), (0x2E2F, 0x2E2F), (0x3005, 0x3007), (0x3021, 0x3029), (0x3031, 0x3035),
     (0x3038, 0x303C), (0x3041, 0x3096), (0x309D, 0x309F), (0x30A1, 0x30FA), (0x30FC, 0x30FF),
     (0x3105, 0x312F), (0x3131, 0x318E), (0x3192, 0x3195), (0x31A0, 0x31BF), (0x31F0, 0x31FF),
     (0x3220, 0x3229), (0x3248, 0x324F), (0x3251, 0x325F), (0x3280, 0x3289), (0x32B1, 0x32BF),
     (0x3400, 0x4DBF), (0x4E00, 0xA48C), (0xA4D0, 0xA4FD), (0xA500, 0xA60C), (0xA610, 0xA62B),
     (0xA640, 0xA66E), (0xA67F, 0xA69D), (0xA6A0, 0xA6EF), (0xA717, 0xA71F), (0xA722, 0xA788),
     (0xA78B, 0xA7CA), (0xA7D0, 0xA7D1), (0xA7D3, 0xA7D3), (0xA7D5, 0xA7D9), (0xA7F2, 0xA801),
     (0xA803, 0xA805), (0xA807, 0xA80A), (0xA80C, 0xA822), (0xA830, 0xA835), (0xA840, 0xA873),
     (0xA882, 0xA8B3), (0xA8D0, 0xA8D9), (0xA8F2, 0xA8F7), (0xA8FB, 0xA8FB), (0xA8FD, 0xA8FE),
     (0xA900, 0xA925), (0xA930, 0xA946), (0xA960, 0xA97C), (0xA984, 0xA9B2), (0xA9CF, 0xA9D9),
     (0xA9E0, 0xA9E4), (0xA9E6, 0xA9FE), (0xAA00, 0xAA28), (0xAA40, 0xAA42), (0xAA44, 0xAA4B),
     (0xAA50, 0xAA59), (0xAA60, 0xAA76), (0xAA7A, 0xAA7A), (0xAA7E, 0xAAAF), (0xAAB1, 0xAAB1),
     (0xAAB5, 0xAAB6), (0xAAB9, 0xAABD), (0xAAC0, 0xAAC0), (0xAAC2, 0xAAC2), (0xAADB, 0xAADD),
     (0xAAE0, 0xAAEA), (0xAAF2, 0xAAF4), (0xAB01, 0xAB06), (0xAB09, 0xAB0E), (0xAB11, 0xAB16),
     (0xAB20, 0xAB26), (0xAB28, 0xAB2E), (0xAB30, 0xAB5A), (0xAB5C, 0xAB69), (0xAB70, 0xABE2),
     (0xABF0, 0xABF9), (0xAC00, 0xD7A3), (0xD7B0, 0xD7C6), (0xD7CB, 0xD7FB), (0xF900, 0xFA6D),
     (0xFA70, 0xFAD9), (0xFB00, 0xFB06), (0xFB13, 0xFB17), (0xFB1D, 0xFB1D), (0xFB1F, 0xFB28),
     (0xFB2A, 0xFB36), (0xFB38, 0xFB3C), (0xFB3E, 0xFB3E), (0xFB40, 0xFB41), (0xFB43, 0xFB44),
     (0xFB46, 0xFBB1), (0xFBD3, 0xFD3D), (0xFD50, 0xFD8F), (0xFD92, 0xFDC7), (0xFDF0, 0xFDFB),
     (0xFE70, 0xFE74), (0xFE76, 0xFEFC), (0xFF10, 0xFF19), (0xFF21, 0xFF3A), (0xFF41, 0xFF5A),
     (0xFF66, 0xFFBE), (0xFFC2, 0xFFC7), (0xFFCA, 0xFFCF), (0xFFD2, 0xFFD7), (0xFFDA, 0xFFDC),
     (0x10000, 0x1000B), (0x1000D, 0x10026), (0x10028, 0x1003A), (0x1003C, 0x1003D),
     (0x1003F, 0x1004D), (0x10050, 0x1005D), (0x10080, 0x100FA), (0x10107, 0x10133),
     (0x10140, 0x10178), (0x1018A, 0x1018B), (0x10280, 0x1029C), (0x102A0, 0x102D0),
     (0x102E1, 0x102FB), (0x10300, 0x10323), (0x1032D, 0x1034A), (0x10350, 0x10375),
     (0x10380, 0x1039D), (0x103A0, 0x103C3), (0x103C8, 0x103CF), (0x103D1, 0x103D5),
     (0x10400, 0x1049D), (0x104A0, 0x104A9), (0x104B0, 0x104D3), (0x104D8, 0x104FB),
     (0x10500, 0x10527), (0x10530, 0x10563), (0x10570, 0x1057A), (0x1057C, 0x1058A),
     (0x1058C, 0x10592), (0x10594, 0x10595), (0x10597, 0x105A1), (0x105A3, 0x105B1),
     (0x105B3, 0x105B9), (0x105BB, 0x105BC), (0x10600, 0x10736), (0x10740, 0x10755),
     (0x10760, 0x10767), (0x10780, 0x10785), (0x10787, 0x107B0), (0x107B2, 0x107BA),
     (0x10800, 0x10805), (0x10808, 0x10808), (0x1080A, 0x10835), (0x10837, 0x10838),
     (0x1083C, 0x1083C), (0x1083F, 0x10855), (0x10858, 0x10876), (0x10879, 0x1089E),
     (0x108A7, 0x108AF), (0x108E0, 0x108F2), (0x108F4, 0x108F5), (0x108FB, 0x1091B),
     (0x10920, 0x10939), (0x10980, 0x109B7), (0x109BC, 0x109CF), (0x109D2, 0x10A00),
     (0x10A10, 0x10A13), (0x10A15, 0x10A17), (0x10A19, 0x10A35), (0x10A40, 0x10A48),
     (0x10A60, 0x10A7E), (0x10A80, 0x10A9F), (0x10AC0, 0x10AC7), (0x10AC9, 0x10AE4),
     (0x10AEB, 0x10AEF), (0x10B00, 0x10B35), (0x10B40, 0x10B55), (0x10B58, 0x10B72),
     (0x10B78, 0x10B91), (0x10BA9, 0x10BAF), (0x10C00, 0x10C48), (0x10C80, 0x10CB2),
     (0x10CC0, 0x10CF2), (0x10CFA, 0x10D23), (0x10D30, 0x10D39), (0x10E60, 0x10E7E),
     (0x10E80, 0x10EA9), (0x10EB0, 0x10EB1), (0x10F00, 0x10F27), (0x10F30, 0x10F45),
     (0x10F51, 0x10F54), (0x10F70, 0x10F81), (0x10FB0, 0x10FCB), (0x10FE0, 0x10FF6),
     (0x11003, 0x11037), (0x11052, 0x1106F), (0x11071, 0x11072), (0x11075, 0x11075),
     (0x11083, 0x110AF), (0x110D0, 0x110E8), (0x110F0, 0x110F9), (0x11103, 0x11126),
     (0x11136, 0x1113F), (0x11144, 0x11144), (0x11147, 0x11147), (0x11150, 0x11172),
     (0x11176, 0x11176), (0x11183, 0x111B2), (0x111C1, 0x111C4), (0x111D0, 0x111DA),
     (0x111DC, 0x111DC), (0x111E1, 0x111F4), (0x11200, 0x11211), (0x11213, 0x1122B),
     (0x11280, 0x11286), (0x11288, 0x11288), (0x1128A, 0x1128D), (0x1128F, 0x1129D),
     (0x1129F, 0x112A8), (0x112B0, 0x112DE), (0x112F0, 0x112F9), (0x11305, 0x1130C),
     (0x1130F, 0x11310), (0x11313, 0x11328), (0x1132A, 0x11330), (0x11332, 0x11333),
     (0x11335, 0x11339), (0x1133D, 0x1133D), (0x11350, 0x11350), (0x1135D, 0x11361),
     (0x11400, 0x11434), (0x11447, 0x1144A), (0x11450, 0x11459), (0x1145F, 0x11461),
     (0x11480, 0x114AF), (0x114C4, 0x114C5), (0x114C7, 0x114C7), (0x114D0, 0x114D9),
     (0x11580, 0x115AE), (0x115D8, 0x115DB), (0x11600, 0x1162F), (0x11644, 0x11644),
     (0x11650, 0x11659), (0x11680, 0x116AA), (0x116B8, 0x116B8), (0x116C0, 0x116C9),
     (0x11700, 0x1171A), (0x11730, 0x1173B), (0x11740, 0x11746), (0x11800, 0x1182B),
     (0x118A0, 0x118F2), (0x118FF, 0x11906), (0x11909, 0x11909), (0x1190C, 0x11913),
     (0x11915, 0x11916), (0x11918, 0x1192F), (0x1193F, 0x1193F), (0x11941, 0x11941),
     (0x11950, 0x11959), (0x119A0, 0x119A7), (0x119AA, 0x119D0), (0x119E1, 0x119E1),
     (0x119E3, 0x119E3), (0x11A00, 0x11A00), (0x11A0B, 0x11A32), (0x11A3A, 0x11A3A),
     (0x11A50, 0x11A50), (0x11A5C, 0x11A89), (0x11A9D, 0x11A9D), (0x11AB0, 0x11AF8),
     (0x11C00, 0x11C08), (0x11C0A, 0x11C2E), (0x11C40, 0x11C40), (0x11C50, 0x11C6C),
     (0x11C72, 0x11C8F), (0x11D00, 0x11D06), (0x11D08, 0x11D09), (0x11D0B, 0x11D30),
     (0x11D46, 0x11D46), (0x11D50, 0x11D59), (0x11D60, 0x11D65), (0x11D67, 0x11D68),
     (0x11D6A, 0x11D89), (0x11D98, 0x11D98), (0x11DA0, 0x11DA9), (0x11EE0, 0x11EF2),
     (0x11FB0, 0x11FB0), (0x11FC0, 0x11FD4), (0x12000, 0x12399), (0x12400, 0x1246E),
     (0x12480, 0x12543), (0x12F90, 0x12FF0), (0x13000, 0x1342E), (0x14400, 0x14646),
     (0x16800, 0x16A38), (0x16A40, 0x16A5E), (0x16A60, 0x16A69), (0x16A70, 0x16ABE),
     (0x16AC0, 0x16AC9), (0x16AD0, 0x16AED), (0x16B00, 0x16B2F), (0x16B40, 0x16B43),
     (0x16B50, 0x16B59), (0x16B5B, 0x16B61), (0x16B63, 0x16B77), (0x16B7D, 0x16B8F),
     (0x16E40, 0x16E96), (0x16F00, 0x16F4A), (0x16F50, 0x16F50), (0x16F93, 0x16F9F),
     (0x16FE0, 0x16FE1), (0x16FE3, 0x16FE3), (0x17000, 0x187F7), (0x18800, 0x18CD5),
     (0x18D00, 0x18D08), (0x1AFF0, 0x1AFF3), (0x1AFF5, 0x1AFFB), (0x1AFFD, 0x1AFFE),
     (0x1B000, 0x1B122), (0x1B150, 0x1B152), (0x1B164, 0x1B167), (0x1B170, 0x1B2FB),
     (0x1BC00, 0x1BC6A), (0x1BC70, 0x1BC7C), (0x1BC80, 0x1BC88), (0x1BC90, 0x1BC99),
     (0x1D2E0, 0x1D2F3), (0x1D360, 0x1D378), (0x1D400, 0x1D454), (0x1D456, 0x1D49C),
     (0x1D49E, 0x1D49F), (0x1D4A2, 0x1D4A2), (0x1D4A5, 0x1D4A6), (0x1D4A9, 0x1D4AC),
     (0x1D4AE, 0x1D4B9), (0x1D4BB, 0x1D4BB), (0x1D4BD, 0x1D4C3), (0x1D4C5, 0x1D505),
     (0x1D507, 0x1D50A), (0x1D50D, 0x1D514), (0x1D516, 0x1D51C), (0x1D51E, 0x1D539),
     (0x1D53B, 0x1D53E), (0x1D540, 0x1D544), (0x1D546, 0x1D546), (0x1D54A, 0x1D550),
     (0x1D552, 0x1D6A5), (0x1D6A8, 0x1D6C0), (0x1D6C2, 0x1D6DA), (0x1D6DC, 0x1D6FA),
     (0x1D6FC, 0x1D714), (0x1D716, 0x1D734), (0x1D736, 0x1D74E), (0x1D750, 0x1D76E),
     (0x1D770, 0x1D788), (0x1D78A, 0x1D7A8), (0x1D7AA, 0x1D7C2), (0x1D7C4, 0x1D7CB),
     (0x1D7CE, 0x1D7FF), (0x1DF00, 0x1DF1E), (0x1E100, 0x1E12C), (0x1E137, 0x1E13D),
     (0x1E140, 0x1E149), (0x1E14E, 0x1E14E), (0x1E290, 0x1E2AD), (0x1E2C0, 0x1E2EB),
     (0x1E2F0, 0x1E2F9), (0x1E7E0, 0x1E7E6), (0x1E7E8, 0x1E7EB), (0x1E7ED, 0x1E7EE),
     (0x1E7F0, 0x1E7FE), (0x1E800, 0x1E8C4), (0x1E8C7, 0x1E8CF), (0x1E900, 0x1E943),
     (0x1E94B, 0x1E94B), (0x1E950, 0x1E959), (0x1EC71, 0x1ECAB), (0x1ECAD, 0x1ECAF),
     (0x1ECB1, 0x1ECB4), (0x1ED01, 0x1ED2D), (0x1ED2F, 0x1ED3D), (0x1EE00, 0x1EE03),
     (0x1EE05, 0x1EE1F), (0x1EE21, 0x1EE22), (0x1EE24, 0x1EE24), (0x1EE27, 0x1EE27),
     (0x1EE29, 0x1EE32), (0x1EE34, 0x1EE37), (0x1EE39, 0x1EE39), (0x1EE3B, 0x1EE3B),
     (0x1EE42, 0x1EE42), (0x1EE47, 0x1EE47), (0x1EE49, 0x1EE49), (0x1EE4B, 0x1EE4B),
     (0x1EE4D, 0x1EE4F), (0x1EE51, 0x1EE52), (0x1EE54, 0x1EE54), (0x1EE57, 0x1EE57),
     (0x1EE59, 0x1EE59), (0x1EE5B, 0x1EE5B), (0x1EE5D, 0x1EE5D), (0x1EE5F, 0x1EE5F),
     (0x1EE61, 0x1EE62), (0x1EE64, 0x1EE64), (0x1EE67, 0x1EE6A), (0x1EE6C, 0x1EE72),
     (0x1EE74, 0x1EE77), (0x1EE79, 0x1EE7C), (0x1EE7E, 0x1EE7E), (0x1EE80, 0x1EE89),
     (0x1EE8B, 0x1EE9B), (0x1EEA1, 0x1EEA3), (0x1EEA5, 0x1EEA9), (0x1EEAB, 0x1EEBB),
     (0x1F100, 0x1F10C), (0x1FBF0, 0x1FBF9), (0x20000, 0x2A6DF), (0x2A700, 0x2B738),
     (0x2B740, 0x2B81D), (0x2B820, 0x2CEA1), (0x2CEB0, 0x2EBE0), (0x2F800, 0x2FA1D),
     (0x30000, 0x3134A)]"

definition is_word :: "nat \<Rightarrow> bool" where
  "is_word c =
     (if c < 128 then (48 \<le> c \<and> c \<le> 57) \<or> is_upper c \<or> is_lower c \<or> c = 95
      else in_ranges word_ranges c)"

definition strip :: "ustr \<Rightarrow> ustr" where
  "strip s = rev (dropWhile is_space (rev (dropWhile is_space s)))"

text \<open>\<open>sub in s\<close> on strings.\<close>

fun contains :: "ustr \<Rightarrow> ustr \<Rightarrow> bool" where
  "contains sub [] = (sub = [])"
| "contains sub (c # cs) = (take (length sub) (c # cs) = sub \<or> contains sub cs)"

text \<open>\<open>sep.join(parts)\<close>.\<close>

fun join :: "ustr \<Rightarrow> ustr list \<Rightarrow> ustr" where
  "join sep [] = []"
| "join sep [p] = p"
| "join sep (p # q # ps) = p @ sep @ join sep (q # ps)"

text \<open>\<open>str(n)\<close> of a non-negative integer.\<close>

function str_of_nat :: "nat \<Rightarrow> ustr" where
  "str_of_nat n = (if n < 10 then [48 + n] else str_of_nat (n div 10) @ [48 + n mod 10])"
  by pat_completeness auto
termination
  by (relation "measure (\<lambda>n. n)") auto

declare str_of_nat.simps [simp del]

section \<open>Regular expressions as \<open>re\<close> matches them\<close>

text \<open>
  The patterns of the module use literals, character classes, greedy and lazy
  repetition of a single class, bounded repetition, optional groups, alternation,
  capturing groups, one lookahead, \<open>$\<close> and \<open>\\b\<close>. The matcher below is the
  backtracking search of \<open>re\<close>: alternatives are tried left to right, a greedy
  repetition tries the longest run first and a lazy one the shortest, and the first
  success is the match. The continuation is an explicit stack of what is left to match.
\<close>

datatype citem = Rng nat nat | Space | Digit

type_synonym cls = "bool \<times> citem list"

datatype rx =
    Lit ustr
  | Set cls
  | Rep bool nat "nat option" cls
  | Seq "rx list"
  | Alt "rx list"
  | Opt rx
  | Grp nat rx
  | Look rx
  | Eol
  | Wordb

datatype item = R rx | Close nat ustr | Adv nat

fun in_item :: "citem \<Rightarrow> nat \<Rightarrow> bool" where
  "in_item (Rng a b) c = (a \<le> c \<and> c \<le> b)"
| "in_item Space c = is_space c"
| "in_item Digit c = is_digit c"

fun memb :: "cls \<Rightarrow> nat \<Rightarrow> bool" where
  "memb (neg, its) c = (neg \<noteq> list_ex (\<lambda>i. in_item i c) its)"

text \<open>
  \<open>re.IGNORECASE\<close>. The matcher lower-cases the character of the text (\<open>fold_cp\<close>: the
  ASCII capitals, and U+0130 and U+212A, the two other characters whose lower case is an
  ASCII letter) and compares it with the lower-cased literal or with the characters
  \<open>re\<close> treats as equal to it (\<open>case_fixes\<close>: U+0131 for \<open>i\<close>, U+017F for \<open>s\<close>). A
  class is lower-cased in the same way when it holds a cased character. This is the
  rule of \<open>re\<close> for literals and class members that are ASCII or have no case, as all
  those of the module are.
\<close>

definition fold_cp :: "nat \<Rightarrow> nat" where
  "fold_cp x = (if x = 0x130 then 0x69 else if x = 0x212A then 0x6B else lower_cp x)"

definition case_fixes :: "nat \<Rightarrow> nat list" where
  "case_fixes lo = (if lo = 0x69 then [0x131] else if lo = 0x73 then [0x17F] else [])"

definition chr_eq :: "bool \<Rightarrow> nat \<Rightarrow> nat \<Rightarrow> bool" where
  "chr_eq ic c x =
     (if ic then fold_cp x = lower_cp c \<or> fold_cp x \<in> set (case_fixes (lower_cp c)) else x = c)"

text \<open>Whether the lower-cased class holds the (lower-case) character \<open>y\<close>.\<close>

fun in_lowered :: "citem \<Rightarrow> nat \<Rightarrow> bool" where
  "in_lowered (Rng a b) y =
     ((a \<le> y \<and> y \<le> b \<and> \<not> is_upper y) \<or> (is_lower y \<and> a \<le> y - 32 \<and> y - 32 \<le> b))"
| "in_lowered Space y = is_space y"
| "in_lowered Digit y = is_digit y"

fun has_cased :: "citem \<Rightarrow> bool" where
  "has_cased (Rng a b) = ((a \<le> 90 \<and> 65 \<le> b) \<or> (a \<le> 122 \<and> 97 \<le> b))"
| "has_cased i = False"

definition in_cls :: "bool \<Rightarrow> cls \<Rightarrow> nat \<Rightarrow> bool" where
  "in_cls ic k c =
     (if ic \<and> list_ex has_cased (snd k) then
        (let y = fold_cp c in
         fst k \<noteq> (list_ex (\<lambda>i. in_lowered i y) (snd k) \<or>
                   list_ex (\<lambda>lo. y \<in> set (case_fixes lo) \<and> list_ex (\<lambda>i. in_lowered i lo) (snd k))
                     [0x69, 0x73]))
      else memb k c)"

fun match_lit :: "bool \<Rightarrow> ustr \<Rightarrow> nat option \<Rightarrow> ustr \<Rightarrow> (nat option \<times> ustr) option" where
  "match_lit ic [] p t = Some (p, t)"
| "match_lit ic (c # s) p [] = None"
| "match_lit ic (c # s) p (x # t) = (if chr_eq ic c x then match_lit ic s (Some x) t else None)"

text \<open>\<open>$\<close>: at the end, or before the final newline; with \<open>re.MULTILINE\<close> before any newline.\<close>

definition at_eol :: "bool \<Rightarrow> ustr \<Rightarrow> bool" where
  "at_eol ml t = (case t of [] \<Rightarrow> True | c # cs \<Rightarrow> c = 10 \<and> (ml \<or> cs = []))"

definition at_wordb :: "nat option \<Rightarrow> ustr \<Rightarrow> bool" where
  "at_wordb p t =
     ((case p of None \<Rightarrow> False | Some c \<Rightarrow> is_word c) \<noteq> (case t of [] \<Rightarrow> False | c # _ \<Rightarrow> is_word c))"

fun w_rx :: "rx \<Rightarrow> nat" where
  "w_rx (Seq rs) = Suc (sum_list (map w_rx rs))"
| "w_rx (Alt rs) = Suc (sum_list (map w_rx rs))"
| "w_rx (Opt r) = Suc (w_rx r)"
| "w_rx (Grp g r) = Suc (Suc (w_rx r))"
| "w_rx (Look r) = Suc (w_rx r)"
| "w_rx r = 1"

fun w_item :: "item \<Rightarrow> nat" where
  "w_item (R r) = w_rx r"
| "w_item i = 1"

lemma w_rx_pos: "0 < w_rx r"
  by (cases r) simp_all

definition w_stack :: "item list \<Rightarrow> nat" where
  "w_stack k = sum_list (map w_item k)"

lemma w_stack_simps:
  "w_stack [] = 0"
  "w_stack (i # k) = w_item i + w_stack k"
  "w_stack (map R rs @ k) = sum_list (map w_rx rs) + w_stack k"
  by (simp_all add: w_stack_def comp_def)

definition dec :: "nat option \<Rightarrow> nat option" where
  "dec hi = map_option (\<lambda>h. h - 1) hi"

text \<open>
  \<open>m ic ml k p t cs\<close>: match the stack \<open>k\<close> against the rest \<open>t\<close> of the text, whose
  previous character is \<open>p\<close>, with the groups captured so far in \<open>cs\<close>; the result is
  the rest after the match and the groups. \<open>ic\<close> is \<open>re.IGNORECASE\<close>, \<open>ml\<close> is
  \<open>re.MULTILINE\<close>. \<open>Adv n\<close> refuses a match that ends where \<open>n\<close> characters are
  left (an empty match right after an empty match).
\<close>

function m :: "bool \<Rightarrow> bool \<Rightarrow> item list \<Rightarrow> nat option \<Rightarrow> ustr \<Rightarrow> ustr option list
    \<Rightarrow> (ustr \<times> ustr option list) option" where
  "m ic ml [] p t cs = Some (t, cs)"
| "m ic ml (Adv n # k) p t cs = (if length t = n then None else m ic ml k p t cs)"
| "m ic ml (Close g t0 # k) p t cs =
     m ic ml k p t (cs[g - 1 := Some (take (length t0 - length t) t0)])"
| "m ic ml (R (Lit s) # k) p t cs =
     (case match_lit ic s p t of None \<Rightarrow> None | Some (p', t') \<Rightarrow> m ic ml k p' t' cs)"
| "m ic ml (R (Set c) # k) p t cs =
     (case t of [] \<Rightarrow> None
      | x # xs \<Rightarrow> if in_cls ic c x then m ic ml k (Some x) xs cs else None)"
| "m ic ml (R (Rep g lo hi c) # k) p t cs =
     (if 0 < lo then
        (case t of [] \<Rightarrow> None
         | x # xs \<Rightarrow> if in_cls ic c x
             then m ic ml (R (Rep g (lo - 1) (dec hi) c) # k) (Some x) xs cs else None)
      else if hi = Some 0 then m ic ml k p t cs
      else if g then
        (case (case t of [] \<Rightarrow> None
               | x # xs \<Rightarrow> if in_cls ic c x
                   then m ic ml (R (Rep g 0 (dec hi) c) # k) (Some x) xs cs else None) of
           Some r \<Rightarrow> Some r
         | None \<Rightarrow> m ic ml k p t cs)
      else
        (case m ic ml k p t cs of
           Some r \<Rightarrow> Some r
         | None \<Rightarrow>
             (case t of [] \<Rightarrow> None
              | x # xs \<Rightarrow> if in_cls ic c x
                  then m ic ml (R (Rep g 0 (dec hi) c) # k) (Some x) xs cs else None)))"
| "m ic ml (R (Seq rs) # k) p t cs = m ic ml (map R rs @ k) p t cs"
| "m ic ml (R (Alt []) # k) p t cs = None"
| "m ic ml (R (Alt (r # rs)) # k) p t cs =
     (case m ic ml (R r # k) p t cs of
        Some x \<Rightarrow> Some x
      | None \<Rightarrow> m ic ml (R (Alt rs) # k) p t cs)"
| "m ic ml (R (Opt r) # k) p t cs =
     (case m ic ml (R r # k) p t cs of
        Some x \<Rightarrow> Some x
      | None \<Rightarrow> m ic ml k p t cs)"
| "m ic ml (R (Grp g r) # k) p t cs = m ic ml (R r # Close g t # k) p t cs"
| "m ic ml (R (Look r) # k) p t cs =
     (case m ic ml [R r] p t cs of
        None \<Rightarrow> None
      | Some (t', cs') \<Rightarrow> m ic ml k p t cs')"
| "m ic ml (R Eol # k) p t cs = (if at_eol ml t then m ic ml k p t cs else None)"
| "m ic ml (R Wordb # k) p t cs = (if at_wordb p t then m ic ml k p t cs else None)"
  by pat_completeness auto
termination
  by (relation "measures [\<lambda>(ic, ml, k, p, t, cs). w_stack k, \<lambda>(ic, ml, k, p, t, cs). length t]")
     (auto simp: w_stack_simps w_rx_pos)

declare m.simps [simp del]

fun ngroups :: "rx \<Rightarrow> nat" where
  "ngroups (Seq rs) = sum_list (map ngroups rs)"
| "ngroups (Alt rs) = sum_list (map ngroups rs)"
| "ngroups (Opt r) = ngroups r"
| "ngroups (Grp g r) = Suc (ngroups r)"
| "ngroups (Look r) = ngroups r"
| "ngroups r = 0"

text \<open>One match attempt at a position: the number of characters matched and the groups.\<close>

definition attempt :: "rx \<Rightarrow> bool \<Rightarrow> bool \<Rightarrow> bool \<Rightarrow> nat option \<Rightarrow> ustr
    \<Rightarrow> (nat \<times> ustr option list) option" where
  "attempt r ic ml adv p t =
     (case m ic ml (R r # (if adv then [Adv (length t)] else [])) p t (replicate (ngroups r) None) of
        None \<Rightarrow> None
      | Some (t', cs) \<Rightarrow> Some (length t - length t', cs))"

text \<open>\<open>re.search\<close>: the leftmost position where an attempt succeeds.\<close>

fun search :: "rx \<Rightarrow> bool \<Rightarrow> bool \<Rightarrow> nat option \<Rightarrow> ustr \<Rightarrow> (ustr \<times> ustr option list) option" where
  "search r ic ml p [] =
     (case attempt r ic ml False p [] of None \<Rightarrow> None | Some (n, cs) \<Rightarrow> Some ([], cs))"
| "search r ic ml p (x # xs) =
     (case attempt r ic ml False p (x # xs) of
        Some (n, cs) \<Rightarrow> Some (take n (x # xs), cs)
      | None \<Rightarrow> search r ic ml (Some x) xs)"

text \<open>
  The scan behind \<open>re.findall\<close>, \<open>re.split\<close> and \<open>re.sub\<close>: successive
  non-overlapping matches, left to right. Each match comes with the text skipped since
  the previous match; the text after the last match is returned with the list. After an
  empty match the next attempt at the same position must advance.
\<close>

type_synonym rmatch = "ustr \<times> ustr \<times> ustr option list"

function scan :: "rx \<Rightarrow> bool \<Rightarrow> bool \<Rightarrow> bool \<Rightarrow> nat option \<Rightarrow> ustr \<Rightarrow> ustr
    \<Rightarrow> rmatch list \<times> ustr" where
  "scan r ic ml adv p t pre =
     (case attempt r ic ml adv p t of
        None \<Rightarrow>
          (case t of [] \<Rightarrow> ([], pre)
           | x # xs \<Rightarrow> scan r ic ml False (Some x) xs (pre @ [x]))
      | Some (n, cs) \<Rightarrow>
          if n = 0 then
            (if adv then
               (case t of [] \<Rightarrow> ([], pre)
                | x # xs \<Rightarrow> scan r ic ml False (Some x) xs (pre @ [x]))
             else (case scan r ic ml True p t [] of (ms, rest) \<Rightarrow> ((pre, [], cs) # ms, rest)))
          else (case scan r ic ml False (Some (last (take n t))) (drop n t) [] of
                  (ms, rest) \<Rightarrow> ((pre, take n t, cs) # ms, rest)))"
  by pat_completeness auto
termination
  by (relation "measure (\<lambda>(r, ic, ml, adv, p, t, pre). 2 * length t + (if adv then 0 else 1))")
     (auto simp: attempt_def split: option.splits if_splits)

declare scan.simps [simp del]

datatype fa = FStr ustr | FTup "ustr list"

definition grp_str :: "ustr option \<Rightarrow> ustr" where
  "grp_str g = (case g of None \<Rightarrow> [] | Some s \<Rightarrow> s)"

text \<open>
  \<open>re.findall\<close>: the whole match for a pattern without groups, the group for a pattern
  with one, the tuple of groups otherwise; a group that took no part is the empty string.
\<close>

definition fa_of :: "rmatch \<Rightarrow> fa" where
  "fa_of mt = (case mt of (pre, whole, cs) \<Rightarrow>
     (case cs of [] \<Rightarrow> FStr whole | [c] \<Rightarrow> FStr (grp_str c) | _ \<Rightarrow> FTup (map grp_str cs)))"

definition findall :: "rx \<Rightarrow> bool \<Rightarrow> bool \<Rightarrow> ustr \<Rightarrow> fa list" where
  "findall r ic ml text = map fa_of (fst (scan r ic ml False None text []))"

definition re_split :: "rx \<Rightarrow> ustr \<Rightarrow> ustr list" where
  "re_split r text = (case scan r False False False None text [] of (ms, rest) \<Rightarrow> map fst ms @ [rest])"

definition re_sub :: "rx \<Rightarrow> ustr \<Rightarrow> ustr \<Rightarrow> ustr" where
  "re_sub r repl text =
     (case scan r False False False None text [] of (ms, rest) \<Rightarrow> concat (map (\<lambda>mt. fst mt @ repl) ms) @ rest)"

section \<open>The pattern tables of the module\<close>

text \<open>
  Every pattern of \<open>meeting_minutes.py\<close> as a syntax tree, in the order and shape of
  its source text; characters outside ASCII are written as code points. The
  abbreviations name the fragments that the source repeats: \<open>.\<close> is any character
  but the newline, \<open>colon\<close> is the class of the ASCII and the full-width colon,
  \<open>zh_stop\<close> and \<open>en_stop\<close> are the negated classes of clause punctuation,
  \<open>zh_tail\<close> and \<open>en_tail\<close> the optional closing punctuation (in the English
  one the source leaves the dot unescaped, so it is any character), \<open>hhmm\<close> is
  \<open>\\d{1,2}[:\<dots>]\\d{1,2}\<close>.
\<close>

abbreviation ch :: "nat \<Rightarrow> citem" where
  "ch c \<equiv> Rng c c"

abbreviation anychar :: "cls" where
  "anychar \<equiv> (True, [ch 0xA])"

abbreviation white :: "cls" where
  "white \<equiv> (False, [Space])"

abbreviation dig :: "cls" where
  "dig \<equiv> (False, [Digit])"

abbreviation many :: "cls \<Rightarrow> rx" where
  "many c \<equiv> Rep True 0 None c"

abbreviation many1 :: "cls \<Rightarrow> rx" where
  "many1 c \<equiv> Rep True 1 None c"

abbreviation few :: "cls \<Rightarrow> rx" where
  "few c \<equiv> Rep False 0 None c"

abbreviation few1 :: "cls \<Rightarrow> rx" where
  "few1 c \<equiv> Rep False 1 None c"

abbreviation digits :: "nat \<Rightarrow> nat \<Rightarrow> rx" where
  "digits lo hi \<equiv> Rep True lo (Some hi) dig"

abbreviation colon :: "rx" where
  "colon \<equiv> Set (False, [ch 0x3A, ch 0xFF1A])"

abbreviation dash :: "rx" where
  "dash \<equiv> Set (False, [ch 0x2D, ch 0x2F])"

abbreviation zh_stop :: "cls" where
  "zh_stop \<equiv> (True, [ch 0xFF0C, ch 0x3002, ch 0xFF1B])"

abbreviation en_stop :: "cls" where
  "en_stop \<equiv> (True, [ch 0x2C, ch 0x2E])"

abbreviation zh_tail :: "rx" where
  "zh_tail \<equiv> Opt (Alt [Lit [0xFF0C], Lit [0x3002], Lit [0xFF1B], Lit [0xFF09], Lit [0xFF09]])"

abbreviation en_tail :: "rx" where
  "en_tail \<equiv> Opt (Alt [Lit (ascii '',''), Set anychar, Lit (ascii '';''), Lit (ascii '')''), Lit (ascii ''}'')])"

abbreviation hhmm :: "rx" where
  "hhmm \<equiv> Seq [digits 1 2, colon, digits 1 2]"

abbreviation date_ymd :: "rx" where
  "date_ymd \<equiv> Seq [digits 4 4, dash, digits 1 2, dash, digits 1 2]"

abbreviation date_dmy :: "rx" where
  "date_dmy \<equiv> Seq [digits 1 2, dash, digits 1 2, dash, digits 4 4]"

abbreviation date_zh_full :: "rx" where
  "date_zh_full \<equiv> Seq [digits 4 4, Lit [0x5E74], digits 1 2, Lit [0x6708], digits 1 2, Lit [0x65E5]]"

abbreviation date_zh_md :: "rx" where
  "date_zh_md \<equiv> Seq [digits 1 2, Lit [0x6708], digits 1 2, Lit [0x65E5]]"

abbreviation time_unit :: "rx" where
  "time_unit \<equiv> Alt [Lit [0x5206, 0x949F], Lit [0x5C0F, 0x65F6], Lit [0x5929], Lit [0x5468], Lit [0x6708], Lit [0x5E74]]"

text \<open>
  \<open>label[:\<dots>]\\s*(.+?)(?=\\n|$)\<close> for a list of alternative labels: the shape of the
  section patterns of the summary and of the labelled action-item patterns.
\<close>

definition label_line :: "ustr list \<Rightarrow> rx" where
  "label_line labels =
     Seq [Alt (map Lit labels), colon, many white, Grp 1 (few1 anychar), Look (Alt [Lit [0xA], Eol])]"

definition surnames :: "cls" where
  "surnames =
     (False, [ch 0x5F20, ch 0x738B, ch 0x674E, ch 0x8D75, ch 0x5218, ch 0x9648, ch 0x6768,
       ch 0x9EC4, ch 0x5434, ch 0x5468, ch 0x5F90, ch 0x5B59, ch 0x9A6C, ch 0x6731, ch 0x80E1,
       ch 0x6797, ch 0x90ED, ch 0x4F55, ch 0x9AD8, ch 0x7F57, ch 0x90D1, ch 0x6881, ch 0x8C22,
       ch 0x5B8B, ch 0x5510, ch 0x8BB8, ch 0x97E9, ch 0x51AF, ch 0x9093, ch 0x66F9, ch 0x5F6D,
       ch 0x66FE, ch 0x8427, ch 0x7530, ch 0x8463, ch 0x8881, ch 0x6F58, ch 0x4E8E, ch 0x848B,
       ch 0x8521, ch 0x4F59, ch 0x675C, ch 0x53F6, ch 0x7A0B, ch 0x82CF, ch 0x9B4F, ch 0x5415,
       ch 0x4E01, ch 0x4EFB, ch 0x6C88, ch 0x59DA, ch 0x5362, ch 0x59DC, ch 0x5D14, ch 0x949F,
       ch 0x8C2D, ch 0x9646, ch 0x6C6A, ch 0x8303, ch 0x91D1, ch 0x77F3, ch 0x5ED6, ch 0x718A,
       ch 0x91D1, ch 0x9646, ch 0x90DD, ch 0x5B54, ch 0x767D, ch 0x5D14, ch 0x5EB7, ch 0x6BDB,
       ch 0x90B1, ch 0x79E6, ch 0x6C5F, ch 0x53F2, ch 0x987E, ch 0x4FAF, ch 0x90B5, ch 0x5B5F,
       ch 0x9F99, ch 0x4E07, ch 0x6BB5, ch 0x96F7, ch 0x94B1, ch 0x6C64, ch 0x5C39, ch 0x9ECE,
       ch 0x6613, ch 0x5E38, ch 0x6B66, ch 0x4E54, ch 0x8D3A, ch 0x8D56, ch 0x9F9A, ch 0x6587])"

definition rx_whitespace :: "rx" where
  "rx_whitespace =
     many1 white"

definition rx_zh_disallowed :: "rx" where
  "rx_zh_disallowed =
     Set (True, [Rng 0x4E00 0x9FA5, Rng 0x61 0x7A, Rng 0x41 0x5A, Rng 0x30 0x39, Space,
       ch 0xFF0C, ch 0x3002, ch 0xFF01, ch 0xFF1F, ch 0xFF1B, ch 0xFF1A, ch 0x22, ch 0x27,
       ch 0x3001, ch 0xFF08, ch 0xFF09, ch 0x300A, ch 0x300B, ch 0x3010, ch 0x3011])"

definition rx_en_disallowed :: "rx" where
  "rx_en_disallowed =
     Set (True, [Rng 0x61 0x7A, Rng 0x41 0x5A, Rng 0x30 0x39, Space, ch 0x2E, ch 0x2C, ch 0x21,
       ch 0x3F, ch 0x3B, ch 0x3A, ch 0x22, ch 0x27, ch 0x28, ch 0x29, ch 0x5B, ch 0x5D,
       ch 0x7B, ch 0x7D])"

definition rx_blank_line :: "rx" where
  "rx_blank_line =
     Seq [Lit [0xA], many white, Lit [0xA]]"

definition rx_zh_sentence_end :: "rx" where
  "rx_zh_sentence_end =
     many1 (False, [ch 0x3002, ch 0xFF01, ch 0xFF1F, ch 0xFF1B])"

definition rx_chinese_char :: "rx" where
  "rx_chinese_char =
     Set (False, [Rng 0x4E00 0x9FA5])"

definition rx_english_char :: "rx" where
  "rx_english_char =
     Set (False, [Rng 0x61 0x7A, Rng 0x41 0x5A])"

definition key_time_patterns :: "rx list" where
  "key_time_patterns =
    [ hhmm
    , Seq [digits 1 2, many white, Alt [Lit (ascii ''AM''), Lit (ascii ''PM''),
         Lit (ascii ''am''), Lit (ascii ''pm'')]]
    , Seq [Lit [0x4E0A, 0x5348], many white, digits 1 2, colon, digits 1 2]
    , Seq [Lit [0x4E0B, 0x5348], many white, digits 1 2, colon, digits 1 2]
    ]"

definition key_date_patterns :: "rx list" where
  "key_date_patterns =
    [ date_ymd
    , date_dmy
    , date_zh_full
    , date_zh_md
    ]"

definition number_pattern :: "rx" where
  "number_pattern =
     Seq [Wordb, many1 dig, Opt (Seq [Lit (ascii ''.''), many1 dig]), Wordb]"

definition name_pattern :: "rx" where
  "name_pattern =
     Seq [many1 surnames, many white, many1 surnames]"

definition todo_patterns_zh :: "rx list" where
  "todo_patterns_zh =
    [ Seq [Alt [Lit [0x9700, 0x8981], Lit [0x8981], Lit [0x5FC5, 0x987B], Lit [0x5F97],
         Lit [0x5E94, 0x8BE5]], Grp 1 (few1 anychar), Alt [Lit [0x5B8C, 0x6210], Lit [0x5904,
         0x7406], Lit [0x89E3, 0x51B3], Lit [0x8DDF, 0x8FDB], Lit [0x8D1F, 0x8D23]], zh_tail]
    , Seq [Alt [Lit [0x7531], Seq [Lit [0x7531], few anychar]], Grp 1 (few1 zh_stop),
         Alt [Lit [0x8D1F, 0x8D23], Lit [0x8DDF, 0x8FDB], Lit [0x5904, 0x7406]],
         Grp 2 (few1 anychar), zh_tail]
    , Seq [Alt [Lit [0x622A, 0x6B62], Lit [0x622A, 0x81F3], Lit [0x671F, 0x9650]], colon,
         many white, Grp 1 (few1 zh_stop), zh_tail]
    , label_line [[0x884C, 0x52A8, 0x9879], [0x5F85, 0x529E, 0x4E8B, 0x9879]]
    , label_line [ascii ''TODO'', ascii ''todo'']
    ]"

definition todo_patterns_en :: "rx list" where
  "todo_patterns_en =
    [ Seq [Alt [Lit (ascii ''need''), Lit (ascii ''must''), Lit (ascii ''should''),
         Lit (ascii ''have to'')], Grp 1 (few1 anychar), Alt [Lit (ascii ''complete''),
         Lit (ascii ''handle''), Lit (ascii ''solve''), Lit (ascii ''follow up''),
         Lit (ascii ''responsible'')], en_tail]
    , Seq [Alt [Lit (ascii ''by''), Lit (ascii ''assigned to'')], many white,
         Grp 1 (few1 en_stop), Alt [Lit (ascii ''to''), Lit (ascii ''for''),
         Lit (ascii ''will'')], Grp 2 (few1 anychar), en_tail]
    , Seq [Alt [Lit (ascii ''deadline''), Lit (ascii ''due date'')], colon, many white,
         Grp 1 (few1 en_stop), en_tail]
    , label_line [ascii ''action item'', ascii ''todo item'']
    , label_line [ascii ''TODO'', ascii ''todo'']
    ]"

definition assignee_patterns_zh :: "rx list" where
  "assignee_patterns_zh =
    [ Seq [Lit [0x7531], many white, Grp 1 (few1 zh_stop), many white, Alt [Lit [0x8D1F,
         0x8D23], Lit [0x8DDF, 0x8FDB], Lit [0x5904, 0x7406]]]
    , Seq [Grp 1 (few1 zh_stop), many white, Lit [0x8D1F, 0x8D23]]
    , Seq [Lit [0x8D23, 0x4EFB, 0x4EBA], colon, many white, Grp 1 (few1 zh_stop), zh_tail]
    ]"

definition assignee_patterns_en :: "rx list" where
  "assignee_patterns_en =
    [ Seq [Lit (ascii ''by''), many white, Grp 1 (few1 en_stop), Alt [Lit (ascii ''to''),
         Lit (ascii ''for''), Lit (ascii ''will'')]]
    , Seq [Lit (ascii ''assigned to''), many white, Grp 1 (few1 en_stop), en_tail]
    , Seq [Lit (ascii ''responsible person''), colon, many white, Grp 1 (few1 en_stop), en_tail]
    ]"

definition date_patterns_zh :: "rx list" where
  "date_patterns_zh =
    [ Seq [Alt [Lit [0x622A, 0x6B62], Lit [0x622A, 0x81F3], Lit [0x671F, 0x9650]], colon,
         many white, Grp 1 (few1 zh_stop), zh_tail]
    , Seq [Alt [Lit [0x5728], Lit [0x4E8E]], many white, Grp 1 (few1 zh_stop), many white,
         Alt [Lit [0x4E4B, 0x524D], Lit [0x524D]], Lit [0x5B8C, 0x6210]]
    , Alt [Lit [0x4E0B, 0x5468, 0x4E00], Lit [0x4E0B, 0x5468, 0x4E8C], Lit [0x4E0B, 0x5468,
         0x4E09], Lit [0x4E0B, 0x5468, 0x56DB], Lit [0x4E0B, 0x5468, 0x4E94], Lit [0x4E0B,
         0x5468, 0x516D], Lit [0x4E0B, 0x5468, 0x65E5], Lit [0x4E0B, 0x5468]]
    , Alt [Lit [0x660E, 0x5929], Lit [0x540E, 0x5929], Lit [0x5927, 0x540E, 0x5929]]
    , date_zh_full
    , date_zh_md
    ]"

definition date_patterns_en :: "rx list" where
  "date_patterns_en =
    [ Seq [Alt [Lit (ascii ''deadline''), Lit (ascii ''due date'')], colon, many white,
         Grp 1 (few1 en_stop), en_tail]
    , Seq [Lit (ascii ''due by''), many white, Grp 1 (few1 en_stop), en_tail]
    , Alt [Lit (ascii ''next Monday''), Lit (ascii ''next Tuesday''),
         Lit (ascii ''next Wednesday''), Lit (ascii ''next Thursday''),
         Lit (ascii ''next Friday''), Lit (ascii ''next Saturday''),
         Lit (ascii ''next Sunday''), Lit (ascii ''next week'')]
    , Alt [Lit (ascii ''tomorrow''), Lit (ascii ''day after tomorrow'')]
    , date_ymd
    , date_dmy
    ]"

definition time_patterns :: "rx list" where
  "time_patterns =
    [ Seq [Grp 1 (hhmm), many white, Opt (Alt [Lit [0x5DE6, 0x53F3], Lit [0x8BB8],
         Lit [0x65F6], Lit [0x5206]])]
    , Seq [Grp 1 (hhmm), Set (False, [ch 0xFF5E, ch 0x7E, ch 0x2D]), Grp 2 (hhmm)]
    , Seq [Grp 1 (date_ymd), many1 white, Grp 2 (hhmm)]
    , Seq [Grp 1 (date_zh_full), many white, Opt (Alt [Lit [0x4E0A, 0x5348], Lit [0x4E0B,
         0x5348]]), many white, Grp 2 (hhmm)]
    , Seq [Alt [Lit [0x63A5, 0x4E0B, 0x6765], Lit [0x968F, 0x540E], Lit [0x7136, 0x540E],
         Lit [0x63A5, 0x7740]], many white, Opt (Lit [0x7684]), many white, Grp 1 (many1 dig),
         many white, time_unit]
    , Seq [Alt [Lit [0x4E4B, 0x524D], Lit [0x4EE5, 0x524D], Lit [0x524D]], many white,
         Grp 1 (many1 dig), many white, time_unit]
    ]"

definition high_priority_zh :: "ustr list" where
  "high_priority_zh =
    [ [0x7D27, 0x6025]
    , [0x91CD, 0x8981]
    , [0x5C3D, 0x5FEB]
    , [0x7ACB, 0x5373]
    , [0x9A6C, 0x4E0A]
    , [0x5FC5, 0x987B]
    , [0x4F18, 0x5148]
    , [0x5173, 0x952E]
    ]"

definition high_priority_en :: "ustr list" where
  "high_priority_en =
    [ ascii ''urgent''
    , ascii ''important''
    , ascii ''asap''
    , ascii ''immediately''
    , ascii ''now''
    , ascii ''must''
    , ascii ''priority''
    , ascii ''critical''
    ]"

definition low_priority_zh :: "ustr list" where
  "low_priority_zh =
    [ [0x53EF, 0x9009]
    , [0x6B21, 0x8981]
    , [0x4E0D, 0x6025]
    , [0x540E, 0x7EED]
    , [0x5C06, 0x6765]
    , [0x6709, 0x7A7A]
    , [0x65B9, 0x4FBF, 0x65F6]
    ]"

definition low_priority_en :: "ustr list" where
  "low_priority_en =
    [ ascii ''optional''
    , ascii ''secondary''
    , ascii ''not urgent''
    , ascii ''later''
    , ascii ''future''
    , ascii ''when convenient''
    ]"

definition importance_zh :: "ustr list" where
  "importance_zh =
    [ [0x51B3, 0x5B9A]
    , [0x51B3, 0x8BAE]
    , [0x8FBE, 0x6210]
    , [0x540C, 0x610F]
    , [0x901A, 0x8FC7]
    , [0x786E, 0x8BA4]
    , [0x5B89, 0x6392]
    , [0x8BA1, 0x5212]
    ]"

definition importance_en :: "ustr list" where
  "importance_en =
    [ ascii ''decide''
    , ascii ''resolution''
    , ascii ''agree''
    , ascii ''approve''
    , ascii ''confirm''
    , ascii ''arrange''
    , ascii ''plan''
    ]"

definition verdict_good :: "ustr" where
  "verdict_good =
     [0x826F, 0x597D]"

definition verdict_poor :: "ustr" where
  "verdict_poor =
     [0x9700, 0x8981, 0x6539, 0x8FDB]"

definition omission_marker :: "ustr" where
  "omission_marker =
     [0xA, 0xA, 0x2E, 0x2E, 0x2E, 0xFF08, 0x66F4, 0x591A, 0x5185, 0x5BB9, 0x7701, 0x7565,
       0xFF09]"

definition event_prefix :: "ustr" where
  "event_prefix =
     [0x4E8B, 0x4EF6, 0x5F]"

definition label_has_time :: "ustr" where
  "label_has_time =
     [0x6709, 0x5177, 0x4F53, 0x65F6, 0x95F4]"

definition label_no_time :: "ustr" where
  "label_no_time =
     [0x65E0, 0x5177, 0x4F53, 0x65F6, 0x95F4]"

definition chart_title_zh :: "ustr" where
  "chart_title_zh =
     [0x4F1A, 0x8BAE, 0x65F6, 0x95F4, 0x7EBF]"

definition status_pending :: "ustr" where
  "status_pending =
     ascii ''pending''"

definition chart_title_en :: "ustr" where
  "chart_title_en =
     ascii ''Meeting Timeline''"


text \<open>The equations that evaluate a match on a concrete text.\<close>

lemmas rx_eval =
  m.simps scan.simps attempt_def in_cls_def chr_eq_def fold_cp_def case_fixes_def lower_cp_def
  is_upper_def is_lower_def is_space_def is_digit_def is_word_def in_ranges_def decimal_ranges_def
  word_ranges_def at_eol_def at_wordb_def dec_def
  ascii_def findall_def fa_of_def grp_str_def re_split_def re_sub_def label_line_def

section \<open>Values, errors and the world outside the module\<close>

text \<open>
  An exception is a value: a function that can raise returns \<open>error + 'a\<close>, with
  \<open>Inl\<close> for the exception that leaves it.
\<close>

datatype error = ValueError | TypeError | KeyError | IndexError | LookupError | OSError
  | ConnectionError | HTTPError | JSONDecodeError

text \<open>
  The Python values that reach \<open>json.dumps\<close> or come back from \<open>response.json()\<close>.
  A float is given by its exact value. \<open>PLambda\<close> is a function object.
\<close>

datatype pyval = PNone | PBool bool | PInt int | PFloat rat | PStr ustr
  | PList "pyval list" | PDict "(ustr \<times> pyval) list" | PLambda

text \<open>
  The request that \<open>_call_deepseek_api\<close> posts is fixed by the API key, the language
  (which of the two constant prompts is sent) and the text embedded in the user prompt.
  The answer of \<open>requests.post\<close> is \<open>NoResponse\<close> when the call itself raises
  (timeout, connection failure), and otherwise the status with the body as
  \<open>response.json()\<close> decodes it (\<open>None\<close> when it is not JSON).
\<close>

record request =
  authorization :: ustr
  chinese_prompt :: bool
  meeting_text :: ustr

datatype outcome = NoResponse | Response nat "pyval option"

text \<open>
  What the module takes from its libraries and its surroundings: whether \<open>jieba\<close> can
  be imported and how it cuts, the NLTK tokenizers (which raise \<open>LookupError\<close> without
  their data), the file system, the environment variable, the service and the clock
  (\<open>now_isoformat w n\<close> is the \<open>n\<close>-th reading of one run); \<open>str.lower\<close> of the
  interpreter's Unicode tables; and the floating-point arithmetic of the platform. A
  float is taken by its exact value, a rational: comparisons are exact, while the true
  division \<open>/\<close>, the subtraction, \<open>round(x, 2)\<close> and \<open>float(s)\<close> round as the platform
  rounds, so they are functions of the world.
\<close>

record world =
  jieba_installed :: bool
  jieba_cut :: "ustr \<Rightarrow> ustr list"
  sent_tokenize :: "ustr \<Rightarrow> error + ustr list"
  word_tokenize :: "ustr \<Rightarrow> error + ustr list"
  open_read :: "ustr \<Rightarrow> error + ustr"
  docx_paragraphs :: "ustr \<Rightarrow> error + ustr list"
  environ_DEEPSEEK_API_KEY :: "ustr option"
  requests_post :: "request \<Rightarrow> outcome"
  now_isoformat :: "nat \<Rightarrow> ustr"
  str_lower :: "ustr \<Rightarrow> ustr"
  float_div :: "rat \<Rightarrow> rat \<Rightarrow> rat"
  float_sub :: "rat \<Rightarrow> rat \<Rightarrow> rat"
  float_round2 :: "rat \<Rightarrow> rat"
  float_of_str :: "ustr \<Rightarrow> rat"

text \<open>\<open>patterns.get(language, patterns['zh'])\<close> on a table with the keys \<open>'zh'\<close> and \<open>'en'\<close>.\<close>

definition by_language :: "'a \<Rightarrow> 'a \<Rightarrow> string \<Rightarrow> 'a" where
  "by_language zh en language =
     (case map_of [(''zh'', zh), (''en'', en)] language of Some v \<Rightarrow> v | None \<Rightarrow> zh)"

text \<open>\<open>re.findall\<close> for a pattern with at most one group: a list of strings.\<close>

definition findall_str :: "rx \<Rightarrow> bool \<Rightarrow> bool \<Rightarrow> ustr \<Rightarrow> ustr list" where
  "findall_str r ic ml text =
     map (\<lambda>mt. case mt of (pre, whole, cs) \<Rightarrow> (case cs of [] \<Rightarrow> whole | c # _ \<Rightarrow> grp_str c))
       (fst (scan r ic ml False None text []))"

section \<open>TextProcessor\<close>

record text_processor =
  tp_language :: string
  has_jieba :: bool

text \<open>
  \<open>__init__\<close> with \<open>_setup_nltk\<close>: \<open>has_jieba\<close> is set for the language \<open>'zh'\<close> only
  (and read for that language only); every failure of the setup is caught and logged.
\<close>

definition TextProcessor :: "world \<Rightarrow> string \<Rightarrow> text_processor" where
  "TextProcessor w language =
     \<lparr>tp_language = language, has_jieba = (language = ''zh'' \<and> jieba_installed w)\<rparr>"

text \<open>The extension of \<open>os.path.splitext\<close> (POSIX paths): leading dots of the name do not count.\<close>

definition splitext_ext :: "ustr \<Rightarrow> ustr" where
  "splitext_ext path =
     (let name = rev (takeWhile (\<lambda>c. c \<noteq> 0x2F) (rev path)) in
      if 0x2E \<notin> set name then []
      else
        let e = rev (takeWhile (\<lambda>c. c \<noteq> 0x2E) (rev name));
            stem = take (length name - length e - 1) name
        in if list_all (\<lambda>c. c = 0x2E) stem then [] else 0x2E # e)"

definition parse_text_file :: "world \<Rightarrow> ustr \<Rightarrow> error + ustr" where
  "parse_text_file w file_path =
     (let ext = lower (splitext_ext file_path) in
      if ext = ascii ''.txt'' then open_read w file_path
      else if ext = ascii ''.docx'' then
        (case docx_paragraphs w file_path of
           Inl e \<Rightarrow> Inl e
         | Inr paragraphs \<Rightarrow> Inr (join [0xA] paragraphs))
      else Inl ValueError)"

definition preprocess_text :: "text_processor \<Rightarrow> ustr \<Rightarrow> ustr" where
  "preprocess_text tp text =
     (let text1 = strip (re_sub rx_whitespace (ascii '' '') text) in
      if tp_language tp = ''zh'' then re_sub rx_zh_disallowed [] text1
      else re_sub rx_en_disallowed [] text1)"

text \<open>The comprehension \<open>[p.strip() for p in parts if p.strip()]\<close>.\<close>

definition stripped_nonempty :: "ustr list \<Rightarrow> ustr list" where
  "stripped_nonempty parts = map strip (filter (\<lambda>p. strip p \<noteq> []) parts)"

definition segment_text :: "world \<Rightarrow> text_processor \<Rightarrow> ustr \<Rightarrow> string \<Rightarrow> error + ustr list" where
  "segment_text w tp text mode =
     (if mode = ''paragraph'' then Inr (stripped_nonempty (re_split rx_blank_line text))
      else if mode = ''sentence'' then
        (if tp_language tp = ''zh'' then Inr (stripped_nonempty (re_split rx_zh_sentence_end text))
         else sent_tokenize w text)
      else Inl ValueError)"

definition tokenize_words :: "world \<Rightarrow> text_processor \<Rightarrow> ustr \<Rightarrow> error + ustr list" where
  "tokenize_words w tp text =
     (if tp_language tp = ''zh'' then
        (if has_jieba tp then Inr (jieba_cut w text) else Inr (map (\<lambda>c. [c]) text))
      else word_tokenize w text)"

record quality_report =
  char_count :: nat
  word_count :: nat
  sentence_count :: nat
  paragraph_count :: nat
  readability_score :: rat
  completeness_score :: nat
  language_detected :: string
  qr_summary :: ustr

definition readability :: "world \<Rightarrow> string \<Rightarrow> nat \<Rightarrow> nat \<Rightarrow> nat \<Rightarrow> rat" where
  "readability w language n_chars n_words n_sentences =
     (if 0 < n_sentences \<and> 0 < n_words then
        (if language = ''en'' then
           max 0 (min 100 (float_sub w 100 (float_div w (of_nat n_words) (of_nat n_sentences))))
         else
           max 0 (min 100 (float_sub w 100
             (float_div w (float_div w (of_nat n_chars) (of_nat n_sentences)) 10))))
      else 0)"

definition completeness :: "nat \<Rightarrow> nat" where
  "completeness n_chars =
     (if n_chars < 50 then 30 else if 10000 < n_chars then 90 else 100)"

definition detect_language :: "string \<Rightarrow> ustr \<Rightarrow> string" where
  "detect_language language text =
     (if language = ''auto'' then
        (let chinese_chars = length (findall rx_chinese_char False False text);
             english_chars = length (findall rx_english_char False False text)
         in if english_chars < chinese_chars then ''zh'' else ''en'')
      else language)"

definition evaluate_text_quality :: "world \<Rightarrow> text_processor \<Rightarrow> ustr \<Rightarrow> error + quality_report" where
  "evaluate_text_quality w tp text =
     (case tokenize_words w tp text of
        Inl e \<Rightarrow> Inl e
      | Inr words \<Rightarrow>
     (case segment_text w tp text ''sentence'' of
        Inl e \<Rightarrow> Inl e
      | Inr sentences \<Rightarrow>
     (case segment_text w tp text ''paragraph'' of
        Inl e \<Rightarrow> Inl e
      | Inr paragraphs \<Rightarrow>
          let score = readability w (tp_language tp) (length text) (length words) (length sentences);
              complete = completeness (length text)
          in Inr \<lparr>char_count = length text,
                  word_count = length words,
                  sentence_count = length sentences,
                  paragraph_count = length paragraphs,
                  readability_score = float_round2 w score,
                  completeness_score = complete,
                  language_detected = detect_language (tp_language tp) text,
                  qr_summary = (if 70 < complete \<and> 50 < score then verdict_good else verdict_poor)\<rparr>)))"

section \<open>SummaryGenerator\<close>

record summary_generator =
  api_key :: "ustr option"

text \<open>\<open>self.api_key = api_key or os.environ.get('DEEPSEEK_API_KEY')\<close>: an empty key is falsy.\<close>

definition SummaryGenerator :: "world \<Rightarrow> ustr option \<Rightarrow> summary_generator" where
  "SummaryGenerator w key =
     \<lparr>api_key = (case key of
                    None \<Rightarrow> environ_DEEPSEEK_API_KEY w
                  | Some k \<Rightarrow> if k = [] then environ_DEEPSEEK_API_KEY w else Some k)\<rparr>"

definition build_request :: "summary_generator \<Rightarrow> ustr \<Rightarrow> string \<Rightarrow> request" where
  "build_request gen text language =
     \<lparr>authorization = ascii ''Bearer '' @ (case api_key gen of None \<Rightarrow> ascii ''None'' | Some k \<Rightarrow> k),
      chinese_prompt = (language = ''zh''),
      meeting_text = text\<rparr>"

text \<open>\<open>value[key]\<close> for a string key and \<open>value[0]\<close>, on decoded JSON.\<close>

fun getitem :: "pyval \<Rightarrow> ustr \<Rightarrow> error + pyval" where
  "getitem (PDict kvs) k = (case map_of kvs k of None \<Rightarrow> Inl KeyError | Some v \<Rightarrow> Inr v)"
| "getitem v k = Inl TypeError"

fun getitem0 :: "pyval \<Rightarrow> error + pyval" where
  "getitem0 (PList []) = Inl IndexError"
| "getitem0 (PList (v # vs)) = Inr v"
| "getitem0 (PStr []) = Inl IndexError"
| "getitem0 (PStr (c # cs)) = Inr (PStr [c])"
| "getitem0 (PDict kvs) = Inl KeyError"
| "getitem0 v = Inl TypeError"

text \<open>\<open>result['choices'][0]['message']['content']\<close>.\<close>

definition content_of :: "pyval \<Rightarrow> error + pyval" where
  "content_of result =
     (case getitem result (ascii ''choices'') of
        Inl e \<Rightarrow> Inl e
      | Inr choices \<Rightarrow>
     (case getitem0 choices of
        Inl e \<Rightarrow> Inl e
      | Inr choice \<Rightarrow>
     (case getitem choice (ascii ''message'') of
        Inl e \<Rightarrow> Inl e
      | Inr message \<Rightarrow> getitem message (ascii ''content''))))"

text \<open>
  The body of the \<open>try\<close> in \<open>_call_deepseek_api\<close>: post, \<open>raise_for_status\<close> (which
  raises for the statuses 400 to 599), decode, read the content.
\<close>

definition request_content :: "world \<Rightarrow> request \<Rightarrow> error + pyval" where
  "request_content w rq =
     (case requests_post w rq of
        NoResponse \<Rightarrow> Inl ConnectionError
      | Response status_code body \<Rightarrow>
          if 400 \<le> status_code \<and> status_code < 600 then Inl HTTPError
          else (case body of None \<Rightarrow> Inl JSONDecodeError | Some result \<Rightarrow> content_of result))"

definition generate_fallback_summary :: "world \<Rightarrow> ustr \<Rightarrow> string \<Rightarrow> error + ustr" where
  "generate_fallback_summary w text language =
     (case segment_text w (TextProcessor w language) text ''paragraph'' of
        Inl e \<Rightarrow> Inl e
      | Inr paragraphs \<Rightarrow>
          if length paragraphs \<le> 3 then Inr (join [0xA, 0xA] paragraphs)
          else Inr (join [0xA, 0xA] (take 3 paragraphs) @ omission_marker))"

text \<open>\<open>except Exception\<close>: whatever the \<open>try\<close> raises, the fallback summary is returned.\<close>

definition call_deepseek_api :: "world \<Rightarrow> summary_generator \<Rightarrow> ustr \<Rightarrow> string \<Rightarrow> error + pyval" where
  "call_deepseek_api w gen text language =
     (case request_content w (build_request gen text language) of
        Inr content \<Rightarrow> Inr content
      | Inl e \<Rightarrow>
          (case generate_fallback_summary w text language of
             Inl e' \<Rightarrow> Inl e'
           | Inr fallback \<Rightarrow> Inr (PStr fallback)))"

record "structure" =
  meeting_topic :: ustr
  discussion_issues :: "ustr list"
  discussion_points :: "ustr list"
  decisions :: "ustr list"
  action_items :: "ustr list"

text \<open>Group 1 of a match of a pattern whose first group always takes part.\<close>

definition group1 :: "ustr option list \<Rightarrow> ustr" where
  "group1 cs = (case cs of [] \<Rightarrow> [] | c # _ \<Rightarrow> grp_str c)"

definition topic_of :: "ustr list \<Rightarrow> ustr \<Rightarrow> ustr" where
  "topic_of labels summary_text =
     (case search (label_line labels) False False None summary_text of
        None \<Rightarrow> []
      | Some (whole, cs) \<Rightarrow> strip (group1 cs))"

definition section_lines :: "ustr list \<Rightarrow> ustr \<Rightarrow> ustr list" where
  "section_lines labels summary_text =
     map strip (findall_str (label_line labels) False True summary_text)"

definition parse_summary_to_structure :: "ustr \<Rightarrow> string \<Rightarrow> structure" where
  "parse_summary_to_structure summary_text language =
     (if language = ''zh'' then
        \<lparr>meeting_topic = topic_of [[0x4F1A, 0x8BAE, 0x4E3B, 0x9898]] summary_text,
         discussion_issues = section_lines [[0x4E3B, 0x8981, 0x8BA8, 0x8BBA, 0x95EE, 0x9898], [0x8BA8, 0x8BBA, 0x8BAE, 0x9898]] summary_text,
         discussion_points = section_lines [[0x5173, 0x952E, 0x8BA8, 0x8BBA, 0x70B9], [0x8BA8, 0x8BBA, 0x8981, 0x70B9]] summary_text,
         decisions = section_lines [[0x8FBE, 0x6210, 0x7684, 0x51B3, 0x8BAE], [0x51B3, 0x8BAE]] summary_text,
         action_items = section_lines [[0x5F85, 0x529E, 0x4E8B, 0x9879], [0x884C, 0x52A8, 0x9879]] summary_text\<rparr>
      else
        \<lparr>meeting_topic = topic_of [ascii ''Meeting Topic''] summary_text,
         discussion_issues = section_lines [ascii ''Main Discussion Issues''] summary_text,
         discussion_points = section_lines [ascii ''Key Discussion Points''] summary_text,
         decisions = section_lines [ascii ''Decisions Made''] summary_text,
         action_items = section_lines [ascii ''Action Items''] summary_text\<rparr>)"


record key_information =
  persons :: "ustr list"
  times :: "ustr list"
  locations :: "ustr list"
  numbers :: "pyval list"
  dates :: "ustr list"

text \<open>
  The value of a decimal digit as \<open>int\<close> reads it: the decimal digits of Unicode come in
  runs of ten, in the order of their values, and every range of \<open>decimal_ranges\<close> is made
  of whole runs.
\<close>

definition digit_value :: "nat \<Rightarrow> nat" where
  "digit_value c =
     (if c < 128 then c - 48
      else (case find (\<lambda>r. fst r \<le> c \<and> c \<le> snd r) decimal_ranges of
              None \<Rightarrow> 0
            | Some r \<Rightarrow> (c - fst r) mod 10))"

definition int_of_digits :: "ustr \<Rightarrow> int" where
  "int_of_digits ds = foldl (\<lambda>a c. 10 * a + int (digit_value c)) 0 ds"

text \<open>
  \<open>float(num) if '.' in num else int(num)\<close> on a match of the number pattern
  \<open>\b\d+(?:\.\d+)?\b\<close>: the integer is read digit by digit, the float by the platform.
\<close>

definition number_of :: "world \<Rightarrow> ustr \<Rightarrow> pyval" where
  "number_of w num =
     (if 0x2E \<in> set num then PFloat (float_of_str w num) else PInt (int_of_digits num))"

text \<open>
  \<open>list(set(names))\<close> keeps one copy of each name; the order in which a Python set is
  listed is not fixed, the model lists the names in the order of their last match.
\<close>

definition extract_key_information :: "world \<Rightarrow> ustr \<Rightarrow> string \<Rightarrow> key_information" where
  "extract_key_information w text language =
     \<lparr>persons = (if language = ''zh'' then remdups (findall_str name_pattern False False text) else []),
      times = concat (map (\<lambda>pattern. findall_str pattern False False text) key_time_patterns),
      locations = [],
      numbers = map (number_of w) (findall_str number_pattern False False text),
      dates = concat (map (\<lambda>pattern. findall_str pattern False False text) key_date_patterns)\<rparr>"

record summary_data =
  summary_text :: ustr
  structured_data :: "structure"
  key_info :: key_information
  sd_language :: string
  timestamp :: ustr

text \<open>
  \<open>generate_summary\<close> logs and re-raises. A content that is not a string passes
  \<open>_call_deepseek_api\<close> unchanged and makes \<open>re.search\<close> raise \<open>TypeError\<close>.
\<close>

definition generate_summary :: "world \<Rightarrow> summary_generator \<Rightarrow> ustr \<Rightarrow> string \<Rightarrow> error + summary_data" where
  "generate_summary w gen text lang =
     (case call_deepseek_api w gen text lang of
        Inl e \<Rightarrow> Inl e
      | Inr (PStr s) \<Rightarrow>
          Inr \<lparr>summary_text = s,
               structured_data = parse_summary_to_structure s lang,
               key_info = extract_key_information w text lang,
               sd_language = lang,
               timestamp = now_isoformat w 0\<rparr>
      | Inr other \<Rightarrow> Inl TypeError)"

section \<open>TodoManager\<close>

record todo_item =
  description :: ustr
  assignee :: ustr
  priority :: nat
  due_date :: "ustr option"
  status :: ustr
  extracted_from :: ustr

text \<open>The loop \<open>for pattern in patterns: match = re.search(...); if match: return ...\<close>.\<close>

fun extract_assignee_from :: "rx list \<Rightarrow> ustr \<Rightarrow> ustr" where
  "extract_assignee_from [] text = []"
| "extract_assignee_from (pattern # patterns) text =
     (case search pattern True False None text of
        Some (whole, cs) \<Rightarrow> strip (group1 cs)
      | None \<Rightarrow> extract_assignee_from patterns text)"

definition extract_assignee :: "ustr \<Rightarrow> string \<Rightarrow> ustr" where
  "extract_assignee text language =
     extract_assignee_from (by_language assignee_patterns_zh assignee_patterns_en language) text"

text \<open>\<open>match.group(1) if match.groups() else match.group(0)\<close>, stripped; \<open>None\<close> without a match.\<close>

fun extract_due_date_from :: "rx list \<Rightarrow> ustr \<Rightarrow> ustr option" where
  "extract_due_date_from [] text = None"
| "extract_due_date_from (pattern # patterns) text =
     (case search pattern True False None text of
        Some (whole, cs) \<Rightarrow> Some (if cs \<noteq> [] then strip (group1 cs) else strip whole)
      | None \<Rightarrow> extract_due_date_from patterns text)"

definition extract_due_date :: "ustr \<Rightarrow> string \<Rightarrow> ustr option" where
  "extract_due_date text language =
     extract_due_date_from (by_language date_patterns_zh date_patterns_en language) text"

definition high_priority_keywords :: "string \<Rightarrow> ustr list" where
  "high_priority_keywords language = by_language high_priority_zh high_priority_en language"

definition low_priority_keywords :: "string \<Rightarrow> ustr list" where
  "low_priority_keywords language = by_language low_priority_zh low_priority_en language"

text \<open>The loop \<open>for keyword in keywords: if keyword.lower() in text_lower: return ...\<close>.\<close>

definition any_keyword_in :: "ustr list \<Rightarrow> ustr \<Rightarrow> bool" where
  "any_keyword_in keywords text_lower = list_ex (\<lambda>keyword. contains (lower keyword) text_lower) keywords"

definition evaluate_priority :: "ustr \<Rightarrow> string \<Rightarrow> nat" where
  "evaluate_priority text language =
     (let text_lower = lower text in
      if any_keyword_in (high_priority_keywords language) text_lower then 3
      else if any_keyword_in (low_priority_keywords language) text_lower then 1
      else 2)"

text \<open>
  The description of a match: the non-empty groups of a tuple joined by a space, or the
  single group; stripped.
\<close>

definition description_of :: "fa \<Rightarrow> ustr" where
  "description_of match =
     (case match of
        FTup groups \<Rightarrow> strip (join (ascii '' '') (filter (\<lambda>g. g \<noteq> []) groups))
      | FStr g \<Rightarrow> strip g)"

definition todo_of :: "ustr \<Rightarrow> string \<Rightarrow> todo_item" where
  "todo_of desc language =
     \<lparr>description = desc,
      assignee = extract_assignee desc language,
      priority = evaluate_priority desc language,
      due_date = extract_due_date desc language,
      status = status_pending,
      extracted_from = take 100 desc\<rparr>"

text \<open>The two nested loops over the patterns and their matches, before the removal of duplicates.\<close>

definition todo_candidates :: "ustr \<Rightarrow> string \<Rightarrow> todo_item list" where
  "todo_candidates text language =
     concat (map (\<lambda>pattern.
       concat (map (\<lambda>match.
         let desc = description_of match
         in if desc \<noteq> [] \<and> 3 < length desc then [todo_of desc language] else [])
         (findall pattern True True text)))
       (by_language todo_patterns_zh todo_patterns_en language))"

text \<open>\<open>desc_key = item['description'].lower().strip()\<close>.\<close>

definition desc_key :: "world \<Rightarrow> todo_item \<Rightarrow> ustr" where
  "desc_key w item = strip (str_lower w (description item))"

fun unique_items :: "world \<Rightarrow> todo_item list \<Rightarrow> ustr set \<Rightarrow> todo_item list" where
  "unique_items w [] seen_descriptions = []"
| "unique_items w (item # items) seen_descriptions =
     (if desc_key w item \<notin> seen_descriptions
      then item # unique_items w items (insert (desc_key w item) seen_descriptions)
      else unique_items w items seen_descriptions)"

definition extract_todo_items :: "world \<Rightarrow> ustr \<Rightarrow> string \<Rightarrow> todo_item list" where
  "extract_todo_items w text language = unique_items w (todo_candidates text language) {}"

section \<open>TimelineVisualizer\<close>

record timeline_item =
  time :: ustr
  event :: ustr
  tl_description :: ustr
  sentence_index :: nat
  has_time :: bool

text \<open>\<open>str\<close> of a tuple of strings made of digits, separators and CJK date marks.\<close>

definition str_of_tuple :: "ustr list \<Rightarrow> ustr" where
  "str_of_tuple groups =
     ascii ''('' @ join (ascii '', '') (map (\<lambda>g. [0x27] @ g @ [0x27]) groups) @ ascii '')''"

text \<open>\<open>sentences.index(sentence)\<close>: the first position that holds an equal sentence.\<close>

definition index_of :: "ustr list \<Rightarrow> ustr \<Rightarrow> nat" where
  "index_of sentences sentence = length (takeWhile (\<lambda>s. s \<noteq> sentence) sentences)"

definition importance_keywords :: "string \<Rightarrow> ustr list" where
  "importance_keywords language = by_language importance_zh importance_en language"

definition event_title :: "ustr \<Rightarrow> ustr" where
  "event_title sentence =
     (let title = strip (take 50 sentence)
      in if 50 < length title then take 47 title @ ascii ''...'' else title)"

text \<open>One pass of the loop over the sentences; \<open>timeline_items\<close> is the list built so far.\<close>

definition timeline_step :: "string \<Rightarrow> ustr list \<Rightarrow> timeline_item list \<Rightarrow> ustr \<Rightarrow> timeline_item list" where
  "timeline_step language sentences timeline_items sentence =
     (case concat (map (\<lambda>pattern. findall pattern False False sentence) time_patterns) of
        first_match # _ \<Rightarrow>
          timeline_items @
            [\<lparr>time = (case first_match of FStr s \<Rightarrow> s | FTup groups \<Rightarrow> str_of_tuple groups),
              event = event_title sentence,
              tl_description = sentence,
              sentence_index = index_of sentences sentence,
              has_time = True\<rparr>]
      | [] \<Rightarrow>
          if any_keyword_in (importance_keywords language) (lower sentence) then
            timeline_items @
              [\<lparr>time = event_prefix @ str_of_nat (length timeline_items),
                event = strip (take 50 sentence),
                tl_description = sentence,
                sentence_index = index_of sentences sentence,
                has_time = False\<rparr>]
          else timeline_items)"

definition extract_timeline_data :: "world \<Rightarrow> ustr \<Rightarrow> string \<Rightarrow> error + timeline_item list" where
  "extract_timeline_data w text language =
     (case segment_text w (TextProcessor w language) text ''sentence'' of
        Inl e \<Rightarrow> Inl e
      | Inr sentences \<Rightarrow>
          Inr (sort_key sentence_index (foldl (timeline_step language sentences) [] sentences)))"

text \<open>The ECharts configuration; the series carries a \<open>lambda\<close> under \<open>'symbolSize'\<close>.\<close>

definition chart_point :: "nat \<Rightarrow> timeline_item \<Rightarrow> pyval" where
  "chart_point i item =
     PDict [(ascii ''name'', PStr (event item)),
            (ascii ''value'', PList [PInt (int i), PStr (time item), PStr (take 100 (tl_description item)),
               PStr (if has_time item then label_has_time else label_no_time)]),
            (ascii ''symbolSize'', PInt (if has_time item then 10 else 6))]"

definition axis_style :: "(ustr \<times> pyval) list" where
  "axis_style =
     [(ascii ''axisLabel'', PDict [(ascii ''color'', PStr (ascii ''#666''))]),
      (ascii ''axisLine'', PDict [(ascii ''lineStyle'', PDict [(ascii ''color'', PStr (ascii ''#666''))])])]"

definition create_timeline_chart :: "timeline_item list \<Rightarrow> string \<Rightarrow> pyval" where
  "create_timeline_chart timeline_data language =
     PDict
      [(ascii ''title'', PDict [(ascii ''text'', PStr (if language = ''zh'' then chart_title_zh else chart_title_en)),
                                (ascii ''left'', PStr (ascii ''center''))]),
       (ascii ''tooltip'', PDict [(ascii ''trigger'', PStr (ascii ''item'')),
                                  (ascii ''formatter'', PStr (ascii ''{b}<br/>{c}''))]),
       (ascii ''grid'', PDict [(ascii ''left'', PStr (ascii ''6%'')), (ascii ''right'', PStr (ascii ''6%'')),
                               (ascii ''bottom'', PStr (ascii ''3%'')), (ascii ''containLabel'', PBool True)]),
       (ascii ''xAxis'', PDict ([(ascii ''type'', PStr (ascii ''category'')),
                                 (ascii ''data'', PList (map (\<lambda>item. PStr (time item)) timeline_data))] @ axis_style)),
       (ascii ''yAxis'', PDict ((ascii ''type'', PStr (ascii ''value'')) # axis_style)),
       (ascii ''series'', PList
          [PDict [(ascii ''type'', PStr (ascii ''scatter'')),
                  (ascii ''data'', PList (map (\<lambda>(i, item). chart_point i item) (enumerate 0 timeline_data))),
                  (ascii ''symbolSize'', PLambda),
                  (ascii ''itemStyle'', PDict [(ascii ''color'', PStr (ascii ''#5470c6''))]),
                  (ascii ''emphasis'', PDict [(ascii ''itemStyle'', PDict [(ascii ''color'', PStr (ascii ''#ee6666''))])])]])]"

section \<open>MeetingMinutesAssistant\<close>

record assistant =
  text_processor :: text_processor
  summary_generator :: summary_generator

text \<open>\<open>__init__\<close>: \<open>TextProcessor()\<close> takes the default language \<open>'zh'\<close>.\<close>

definition MeetingMinutesAssistant :: "world \<Rightarrow> ustr option \<Rightarrow> assistant" where
  "MeetingMinutesAssistant w key =
     \<lparr>text_processor = TextProcessor w ''zh'', summary_generator = SummaryGenerator w key\<rparr>"

text \<open>
  The dictionary that \<open>process_meeting_text\<close> returns: \<open>quality\<close> is
  \<open>result['text_processing']['quality_report']\<close>, \<open>timeline_data\<close> and
  \<open>chart_config\<close> are \<open>result['timeline']['data']\<close> and
  \<open>result['timeline']['chart_config']\<close>.
\<close>

record pipeline_result =
  raw_text_sample :: ustr
  processed_text_sample :: ustr
  quality :: quality_report
  summary :: summary_data
  todo_items :: "todo_item list"
  timeline_data :: "timeline_item list"
  chart_config :: pyval
  processing_time :: ustr
  res_language :: string

definition process_meeting_text :: "world \<Rightarrow> assistant \<Rightarrow> ustr \<Rightarrow> string \<Rightarrow> error + pipeline_result" where
  "process_meeting_text w a file_path lang =
     (case parse_text_file w file_path of
        Inl e \<Rightarrow> Inl e
      | Inr raw_text \<Rightarrow>
     (let processed_text = preprocess_text (text_processor a) raw_text in
      case evaluate_text_quality w (text_processor a) processed_text of
        Inl e \<Rightarrow> Inl e
      | Inr report \<Rightarrow>
     (case generate_summary w (summary_generator a) processed_text lang of
        Inl e \<Rightarrow> Inl e
      | Inr summ \<Rightarrow>
     (let todos = extract_todo_items w processed_text lang in
      case extract_timeline_data w processed_text lang of
        Inl e \<Rightarrow> Inl e
      | Inr timeline \<Rightarrow>
          Inr \<lparr>raw_text_sample = take 500 raw_text,
               processed_text_sample = take 500 processed_text,
               quality = report,
               summary = summ,
               todo_items = todos,
               timeline_data = timeline,
               chart_config = create_timeline_chart timeline lang,
               processing_time = now_isoformat w 1,
               res_language = lang\<rparr>))))"

subsection \<open>The result as the Python value handed to \<open>json.dumps\<close>\<close>

definition py_strs :: "ustr list \<Rightarrow> pyval" where
  "py_strs xs = PList (map PStr xs)"

definition py_of_quality :: "quality_report \<Rightarrow> pyval" where
  "py_of_quality q =
     PDict [(ascii ''char_count'', PInt (int (char_count q))),
            (ascii ''word_count'', PInt (int (word_count q))),
            (ascii ''sentence_count'', PInt (int (sentence_count q))),
            (ascii ''paragraph_count'', PInt (int (paragraph_count q))),
            (ascii ''readability_score'', PFloat (readability_score q)),
            (ascii ''completeness_score'', PInt (int (completeness_score q))),
            (ascii ''language_detected'', PStr (ascii (language_detected q))),
            (ascii ''summary'', PStr (qr_summary q))]"

definition py_of_structure :: "structure \<Rightarrow> pyval" where
  "py_of_structure st =
     PDict [(ascii ''meeting_topic'', PStr (meeting_topic st)),
            (ascii ''discussion_issues'', py_strs (discussion_issues st)),
            (ascii ''discussion_points'', py_strs (discussion_points st)),
            (ascii ''decisions'', py_strs (decisions st)),
            (ascii ''action_items'', py_strs (action_items st))]"

definition py_of_key_information :: "key_information \<Rightarrow> pyval" where
  "py_of_key_information k =
     PDict [(ascii ''persons'', py_strs (persons k)),
            (ascii ''times'', py_strs (times k)),
            (ascii ''locations'', py_strs (locations k)),
            (ascii ''numbers'', PList (numbers k)),
            (ascii ''dates'', py_strs (dates k))]"

definition py_of_summary :: "summary_data \<Rightarrow> pyval" where
  "py_of_summary sd =
     PDict [(ascii ''summary_text'', PStr (summary_text sd)),
            (ascii ''structured_data'', py_of_structure (structured_data sd)),
            (ascii ''key_information'', py_of_key_information (key_info sd)),
            (ascii ''language'', PStr (ascii (sd_language sd))),
            (ascii ''timestamp'', PStr (timestamp sd))]"

definition py_of_todo :: "todo_item \<Rightarrow> pyval" where
  "py_of_todo t =
     PDict [(ascii ''description'', PStr (description t)),
            (ascii ''assignee'', PStr (assignee t)),
            (ascii ''priority'', PInt (int (priority t))),
            (ascii ''due_date'', (case due_date t of None \<Rightarrow> PNone | Some d \<Rightarrow> PStr d)),
            (ascii ''status'', PStr (status t)),
            (ascii ''extracted_from'', PStr (extracted_from t))]"

definition py_of_timeline_item :: "timeline_item \<Rightarrow> pyval" where
  "py_of_timeline_item t =
     PDict [(ascii ''time'', PStr (time t)),
            (ascii ''event'', PStr (event t)),
            (ascii ''description'', PStr (tl_description t)),
            (ascii ''sentence_index'', PInt (int (sentence_index t))),
            (ascii ''has_time'', PBool (has_time t))]"

definition result_dict :: "pipeline_result \<Rightarrow> pyval" where
  "result_dict r =
     PDict [(ascii ''text_processing'',
               PDict [(ascii ''raw_text_sample'', PStr (raw_text_sample r)),
                      (ascii ''processed_text_sample'', PStr (processed_text_sample r)),
                      (ascii ''quality_report'', py_of_quality (quality r))]),
            (ascii ''summary'', py_of_summary (summary r)),
            (ascii ''todo_items'', PList (map py_of_todo (todo_items r))),
            (ascii ''timeline'',
               PDict [(ascii ''data'', PList (map py_of_timeline_item (timeline_data r))),
                      (ascii ''chart_config'', chart_config r)]),
            (ascii ''processing_time'', PStr (processing_time r)),
            (ascii ''language'', PStr (ascii (res_language r)))]"

subsection \<open>The canonical export\<close>

text \<open>
  \<open>json.dumps\<close> and \<open>json.loads\<close> up to the syntax of JSON: the encoder yields the
  document, or raises \<open>TypeError\<close> at the first value that has no JSON form; the
  decoder reads a document back as Python values.
\<close>

datatype json = JNull | JBool bool | JInt int | JReal rat | JString ustr
  | JArray "json list" | JObject "(ustr \<times> json) list"

fun all_right :: "(error + 'a) list \<Rightarrow> error + 'a list" where
  "all_right [] = Inr []"
| "all_right (Inl e # xs) = Inl e"
| "all_right (Inr x # xs) = (case all_right xs of Inl e \<Rightarrow> Inl e | Inr ys \<Rightarrow> Inr (x # ys))"

fun json_dumps :: "pyval \<Rightarrow> error + json" where
  "json_dumps PNone = Inr JNull"
| "json_dumps (PBool b) = Inr (JBool b)"
| "json_dumps (PInt i) = Inr (JInt i)"
| "json_dumps (PFloat x) = Inr (JReal x)"
| "json_dumps (PStr s) = Inr (JString s)"
| "json_dumps (PList vs) =
     (case all_right (map json_dumps vs) of Inl e \<Rightarrow> Inl e | Inr js \<Rightarrow> Inr (JArray js))"
| "json_dumps (PDict kvs) =
     (case all_right (map (\<lambda>kv. json_dumps (snd kv)) kvs) of
        Inl e \<Rightarrow> Inl e
      | Inr js \<Rightarrow> Inr (JObject (zip (map fst kvs) js)))"
| "json_dumps PLambda = Inl TypeError"

fun json_loads :: "json \<Rightarrow> pyval" where
  "json_loads JNull = PNone"
| "json_loads (JBool b) = PBool b"
| "json_loads (JInt i) = PInt i"
| "json_loads (JReal x) = PFloat x"
| "json_loads (JString s) = PStr s"
| "json_loads (JArray js) = PList (map json_loads js)"
| "json_loads (JObject kjs) = PDict (map (\<lambda>kj. (fst kj, json_loads (snd kj))) kjs)"

text \<open>\<open>export_results(result, 'json')\<close>: \<open>json.dumps(result, ensure_ascii=False, indent=2)\<close>.\<close>

definition export_results_json :: "pipeline_result \<Rightarrow> error + json" where
  "export_results_json r = json_dumps (result_dict r)"

section \<open>Sample inputs\<close>

text \<open>
  A world for running the pipeline on a concrete input: \<open>jieba\<close> is not installed, the
  NLTK tokenizers return the text as one piece, the file \<open>notes.txt\<close> holds the line
  \<open>Sync 10:30, must plan.\<close> (with a full-width colon), no API key is set and the
  service cannot be reached. Lower-casing folds the ASCII letters and the arithmetic is
  exact, which is the arithmetic of binary floating point wherever the exact result is
  a binary float, as are all results of the run on \<open>notes.txt\<close> (20 / 1, 20 / 10,
  100 - 2 and 98 rounded).
\<close>

definition sample_notes :: ustr where
  "sample_notes = ascii ''Sync 10'' @ [0xFF1A] @ ascii ''30, must plan.''"

definition round_hundredths :: "rat \<Rightarrow> rat" where
  "round_hundredths x =
     (let y = x * 100; f = \<lfloor>y\<rfloor>; d = y - of_int f
      in of_int (if d < 1 / 2 then f else if 1 / 2 < d then f + 1
                 else if even f then f else f + 1) / 100)"

definition decimal_value :: "ustr \<Rightarrow> rat" where
  "decimal_value num =
     (let whole = takeWhile (\<lambda>c. c \<noteq> 0x2E) num; frac = drop (length whole + 1) num
      in of_int (int_of_digits whole) + of_int (int_of_digits frac) / 10 ^ length frac)"

definition sample_world :: world where
  "sample_world =
     \<lparr>jieba_installed = False,
      jieba_cut = (\<lambda>text. [text]),
      sent_tokenize = (\<lambda>text. Inr [text]),
      word_tokenize = (\<lambda>text. Inr [text]),
      open_read = (\<lambda>path. if path = ascii ''notes.txt'' then Inr sample_notes else Inl OSError),
      docx_paragraphs = (\<lambda>path. Inl OSError),
      environ_DEEPSEEK_API_KEY = None,
      requests_post = (\<lambda>rq. NoResponse),
      now_isoformat = (\<lambda>n. ascii ''2024-01-01T09:00:00''),
      str_lower = lower,
      float_div = (\<lambda>a b. a / b),
      float_sub = (\<lambda>a b. a - b),
      float_round2 = round_hundredths,
      float_of_str = decimal_value\<rparr>"


text \<open>Scenario A of the specification (19 characters) and scenario B.\<close>

definition scenario_a :: ustr where
  "scenario_a = [0x9700, 0x8981, 0x5F20, 0x4E09, 0x8D1F, 0x8D23, 0x5B8C, 0x6210, 0x62A5, 0x544A, 0xFF0C, 0x622A, 0x6B62, 0x31, 0x32, 0x6708, 0x33, 0x30, 0x65E5]"

definition scenario_b :: ustr where
  "scenario_b = ascii ''URGENT: John must submit the report by 2024-12-30.''"

text \<open>The sentence \<open>10:30\<close> followed by two CJK characters, twice, separated by a full stop.\<close>

definition repeated_sentence :: ustr where
  "repeated_sentence = [0x31, 0x30, 0x3A, 0x33, 0x30, 0x5F00, 0x4F1A, 0x3002, 0x31, 0x30, 0x3A, 0x33, 0x30, 0x5F00, 0x4F1A]"

text \<open>A sentence of 51 characters: \<open>10:30\<close> and 46 letters.\<close>

definition long_sentence :: ustr where
  "long_sentence = ascii ''10:30aaaaaaaaaaaaaaaaaaaaaaaaaaaaaaaaaaaaaaaaaaaaaa''"


text \<open>Three obligations: \<open>abcd\<close>, \<open>ABCD\<close> and \<open>wxyz\<close>; the first two differ in case only.\<close>

definition repeated_todo :: ustr where
  "repeated_todo =
     [0x8981] @ ascii ''abcd'' @ [0x5B8C, 0x6210, 0xFF0C, 0x8981] @ ascii ''ABCD'' @
     [0x5B8C, 0x6210, 0xFF0C, 0x8981] @ ascii ''wxyz'' @ [0x5B8C, 0x6210]"

section \<open>Evaluation\<close>

text \<open>The defining equations that run the model on a concrete input.\<close>

lemmas pattern_defs =
  surnames_def rx_whitespace_def rx_zh_disallowed_def rx_en_disallowed_def rx_blank_line_def
  rx_zh_sentence_end_def rx_chinese_char_def rx_english_char_def key_time_patterns_def
  key_date_patterns_def number_pattern_def name_pattern_def todo_patterns_zh_def
  todo_patterns_en_def assignee_patterns_zh_def assignee_patterns_en_def date_patterns_zh_def
  date_patterns_en_def time_patterns_def high_priority_zh_def high_priority_en_def
  low_priority_zh_def low_priority_en_def importance_zh_def importance_en_def verdict_good_def
  verdict_poor_def omission_marker_def event_prefix_def label_has_time_def label_no_time_def
  chart_title_zh_def chart_title_en_def status_pending_def

lemmas model_eval =
  rx_eval pattern_defs Let_def strip_def lower_def str_of_nat.simps by_language_def
  findall_str_def round_hundredths_def decimal_value_def TextProcessor_def splitext_ext_def parse_text_file_def
  preprocess_text_def stripped_nonempty_def segment_text_def tokenize_words_def
  readability_def completeness_def detect_language_def evaluate_text_quality_def
  SummaryGenerator_def build_request_def content_of_def request_content_def generate_fallback_summary_def
  call_deepseek_api_def group1_def topic_of_def section_lines_def
  parse_summary_to_structure_def digit_value_def int_of_digits_def number_of_def extract_key_information_def
  generate_summary_def extract_assignee_def extract_due_date_def high_priority_keywords_def
  low_priority_keywords_def any_keyword_in_def evaluate_priority_def description_of_def
  todo_of_def todo_candidates_def desc_key_def extract_todo_items_def str_of_tuple_def
  index_of_def importance_keywords_def event_title_def timeline_step_def
  extract_timeline_data_def chart_point_def axis_style_def create_timeline_chart_def
  MeetingMinutesAssistant_def process_meeting_text_def sort_key_def

section \<open>Properties of the quality report\<close>

text \<open>
  C4. The completeness score of a quality report is a function of its character count
  alone, with the three values 30 (fewer than 50 characters), 90 (more than 10000) and
  100 (otherwise); the character count is the length of the text.
\<close>

theorem completeness_score_by_char_count:
  "evaluate_text_quality w tp text = Inr q \<Longrightarrow>
     char_count q = length text \<and>
     completeness_score q =
       (if char_count q < 50 then 30 else if 10000 < char_count q then 90 else 100)"
  by (auto simp: evaluate_text_quality_def completeness_def Let_def split: sum.splits)

text \<open>With the Chinese profile the evaluation never raises; this is its report.\<close>

lemma quality_zh:
  "evaluate_text_quality w (TextProcessor w ''zh'') text =
     (let n_words = length (if jieba_installed w then jieba_cut w text else map (\<lambda>c. [c]) text);
          n_sentences = length (stripped_nonempty (re_split rx_zh_sentence_end text));
          score = readability w ''zh'' (length text) n_words n_sentences
      in Inr \<lparr>char_count = length text,
              word_count = n_words,
              sentence_count = n_sentences,
              paragraph_count = length (stripped_nonempty (re_split rx_blank_line text)),
              readability_score = float_round2 w score,
              completeness_score = completeness (length text),
              language_detected = ''zh'',
              qr_summary = (if 70 < completeness (length text) \<and> 50 < score then verdict_good else verdict_poor)\<rparr>)"
  by (cases "jieba_installed w")
     (simp_all add: evaluate_text_quality_def TextProcessor_def tokenize_words_def segment_text_def
        detect_language_def Let_def)

lemma readability_zh:
  "readability w ''zh'' n_chars n_words n_sentences =
     (if 0 < n_sentences \<and> 0 < n_words
      then max 0 (min 100 (float_sub w 100
             (float_div w (float_div w (of_nat n_chars) (of_nat n_sentences)) 10)))
      else 0)"
  by (simp add: readability_def)

text \<open>
  C10. A run evaluates the quality of the text with the processor that
  \<open>MeetingMinutesAssistant.__init__\<close> built, whose language is \<open>'zh'\<close> whatever the
  language of the run: the text is filtered by the Chinese allow-list, tokenized by
  \<open>jieba\<close> (or character by character), segmented at the Chinese sentence terminators,
  and the readability is \<open>round(clamp(0, 100, 100 - chars / sentences / 10), 2)\<close> in the
  arithmetic of the platform, not the formula of the Latin profile.
\<close>

theorem quality_report_uses_chinese_profile:
  "process_meeting_text w (MeetingMinutesAssistant w key) file_path lang = Inr r \<Longrightarrow>
     \<exists>raw_text processed.
       parse_text_file w file_path = Inr raw_text \<and>
       processed = re_sub rx_zh_disallowed [] (strip (re_sub rx_whitespace (ascii '' '') raw_text)) \<and>
       processed_text_sample r = take 500 processed \<and>
       char_count (quality r) = length processed \<and>
       word_count (quality r) =
         length (if jieba_installed w then jieba_cut w processed else map (\<lambda>c. [c]) processed) \<and>
       sentence_count (quality r) =
         length (map strip (filter (\<lambda>s. strip s \<noteq> []) (re_split rx_zh_sentence_end processed))) \<and>
       readability_score (quality r) =
         float_round2 w
           (if 0 < sentence_count (quality r) \<and> 0 < word_count (quality r)
            then max 0 (min 100 (float_sub w 100
                   (float_div w
                      (float_div w (of_nat (char_count (quality r))) (of_nat (sentence_count (quality r))))
                      10)))
            else 0)"
proof -
  assume run: "process_meeting_text w (MeetingMinutesAssistant w key) file_path lang = Inr r"
  then obtain raw_text where raw: "parse_text_file w file_path = Inr raw_text"
    by (auto simp: process_meeting_text_def split: sum.splits)
  define processed where "processed = preprocess_text (TextProcessor w ''zh'') raw_text"
  have tp: "text_processor (MeetingMinutesAssistant w key) = TextProcessor w ''zh''"
    by (simp add: MeetingMinutesAssistant_def)
  from run raw tp have q: "evaluate_text_quality w (TextProcessor w ''zh'') processed = Inr (quality r)"
    and s: "processed_text_sample r = take 500 processed"
    by (auto simp: process_meeting_text_def processed_def Let_def split: sum.splits)
  have p: "processed = re_sub rx_zh_disallowed [] (strip (re_sub rx_whitespace (ascii '' '') raw_text))"
    by (simp add: processed_def preprocess_text_def TextProcessor_def Let_def)
  from q have "quality r = projr (evaluate_text_quality w (TextProcessor w ''zh'') processed)"
    by simp
  then have
    "char_count (quality r) = length processed"
    "word_count (quality r) =
       length (if jieba_installed w then jieba_cut w processed else map (\<lambda>c. [c]) processed)"
    "sentence_count (quality r) =
       length (map strip (filter (\<lambda>s. strip s \<noteq> []) (re_split rx_zh_sentence_end processed)))"
    "readability_score (quality r) =
       float_round2 w
         (if 0 < sentence_count (quality r) \<and> 0 < word_count (quality r)
          then max 0 (min 100 (float_sub w 100
                 (float_div w
                    (float_div w (of_nat (char_count (quality r))) (of_nat (sentence_count (quality r))))
                    10)))
          else 0)"
    by (simp_all add: quality_zh Let_def readability_zh stripped_nonempty_def
          del: max.absorb1 max.absorb2 min.absorb1 min.absorb2)
  with raw p s show ?thesis by blast
qed

section \<open>Properties of the summary fallback\<close>



section \<open>Properties of the action items\<close>

text \<open>\<open>contains\<close> is the substring test.\<close>

lemma contains_iff: "contains sub s \<longleftrightarrow> (\<exists>pre post. s = pre @ sub @ post)"
proof (induction s)
  case Nil
  then show ?case by auto
next
  case (Cons c cs)
  show ?case
  proof
    assume "contains sub (c # cs)"
    then consider "take (length sub) (c # cs) = sub" | "contains sub cs" by auto
    then show "\<exists>pre post. c # cs = pre @ sub @ post"
    proof cases
      case 1
      then have "c # cs = [] @ sub @ drop (length sub) (c # cs)"
        by (metis append_Nil append_take_drop_id)
      then show ?thesis by blast
    next
      case 2
      then obtain pre post where "cs = pre @ sub @ post" using Cons.IH by auto
      then have "c # cs = (c # pre) @ sub @ post" by simp
      then show ?thesis by blast
    qed
  next
    assume "\<exists>pre post. c # cs = pre @ sub @ post"
    then obtain pre post where eq: "c # cs = pre @ sub @ post" by auto
    show "contains sub (c # cs)"
    proof (cases pre)
      case Nil
      then have "take (length sub) (c # cs) = sub" using eq by simp
      then show ?thesis by simp
    next
      case (Cons p ps)
      then have "cs = ps @ sub @ post" using eq by simp
      then have "contains sub cs" using Cons.IH by blast
      then show ?thesis by simp
    qed
  qed
qed

text \<open>
  C5. The priority is high (3) whenever a high-priority keyword of the language occurs
  in the text, both lower-cased, whatever low-priority keywords occur with it; it is low
  (1) when no high-priority keyword occurs and a low-priority one does; otherwise it is
  medium (2).
\<close>

theorem priority_precedence:
  "evaluate_priority text language =
     (if \<exists>k \<in> set (high_priority_keywords language). \<exists>pre post. lower text = pre @ lower k @ post then 3
      else if \<exists>k \<in> set (low_priority_keywords language). \<exists>pre post. lower text = pre @ lower k @ post then 1
      else 2)"
  by (simp add: evaluate_priority_def any_keyword_in_def list_ex_iff contains_iff Let_def)

text \<open>
  The loop with its set of seen keys keeps the candidates at the positions whose key is
  neither seen before the loop nor the key of an earlier candidate.
\<close>

lemma unique_items_positions:
  "unique_items w items seen =
     map (\<lambda>i. items ! i)
       (filter (\<lambda>i. desc_key w (items ! i) \<notin> seen \<union> desc_key w ` set (take i items)) [0..<length items])"
proof (induction items arbitrary: seen)
  case Nil
  then show ?case by simp
next
  case (Cons item items)
  have upt: "[0..<length (item # items)] = 0 # map Suc [0..<length items]"
    by (simp add: upt_conv_Cons map_Suc_upt del: upt_Suc)
  show ?case
  proof (cases "desc_key w item \<in> seen")
    case True
    then have ne: "y \<notin> seen \<Longrightarrow> (y = desc_key w item) = False" for y by auto
    from True Cons.IH[of seen] show ?thesis
      unfolding upt by (simp add: filter_map comp_def ne cong: conj_cong)
  next
    case False
    have "insert (desc_key w item) seen \<union> A = seen \<union> insert (desc_key w item) A" for A by blast
    with False Cons.IH[of "insert (desc_key w item) seen"] show ?thesis
      unfolding upt by (simp add: filter_map comp_def conj_ac)
  qed
qed

lemma unique_items_distinct:
  "distinct (map (desc_key w) (unique_items w items seen)) \<and>
   desc_key w ` set (unique_items w items seen) \<inter> seen = {}"
proof (induction items arbitrary: seen)
  case Nil
  then show ?case by simp
next
  case (Cons item items)
  from Cons.IH[of seen] Cons.IH[of "insert (desc_key w item) seen"] show ?case by auto
qed

text \<open>The descriptions of the candidates: those of the matches, pattern by pattern, that pass the guard.\<close>

lemma candidate_descriptions:
  "map description (todo_candidates text language) =
     filter (\<lambda>d. d \<noteq> [] \<and> 3 < length d)
       (map description_of
         (concat (map (\<lambda>pattern. findall pattern True True text)
            (by_language todo_patterns_zh todo_patterns_en language))))"
proof -
  have inner: "map description (concat (map (\<lambda>match.
         let desc = description_of match
         in if desc \<noteq> [] \<and> 3 < length desc then [todo_of desc language] else []) ms))
       = filter (\<lambda>d. d \<noteq> [] \<and> 3 < length d) (map description_of ms)" for ms
    by (induction ms) (simp_all add: Let_def todo_of_def)
  have outer: "map description (concat (map (\<lambda>pattern.
       concat (map (\<lambda>match.
         let desc = description_of match
         in if desc \<noteq> [] \<and> 3 < length desc then [todo_of desc language] else [])
         (findall pattern True True text))) ps))
       = filter (\<lambda>d. d \<noteq> [] \<and> 3 < length d)
           (map description_of (concat (map (\<lambda>pattern. findall pattern True True text) ps)))" for ps
    by (induction ps) (simp_all add: inner)
  show ?thesis unfolding todo_candidates_def by (rule outer)
qed

text \<open>
  C3. No two extracted action items share the lower-cased, stripped description. The
  extracted items are the candidates at the positions whose key (the description
  lower-cased by \<open>str.lower\<close>, then stripped) is not the key of an earlier candidate, in
  the order of the positions: the first occurrence of each key is kept. The candidates
  are produced pattern by pattern and, within a pattern, match by match.
\<close>

theorem todo_items_deduplicated:
  "distinct (map (\<lambda>item. strip (str_lower w (description item))) (extract_todo_items w text language)) \<and>
   extract_todo_items w text language =
     map (\<lambda>i. todo_candidates text language ! i)
       (filter (\<lambda>i. strip (str_lower w (description (todo_candidates text language ! i)))
                  \<notin> (\<lambda>item. strip (str_lower w (description item))) ` set (take i (todo_candidates text language)))
          [0..<length (todo_candidates text language)]) \<and>
   map description (todo_candidates text language) =
     filter (\<lambda>d. d \<noteq> [] \<and> 3 < length d)
       (map description_of
         (concat (map (\<lambda>pattern. findall pattern True True text)
            (by_language todo_patterns_zh todo_patterns_en language))))"
proof -
  have key: "desc_key w = (\<lambda>item. strip (str_lower w (description item)))"
    by (rule ext) (simp add: desc_key_def)
  have "distinct (map (desc_key w) (extract_todo_items w text language))"
    by (simp add: extract_todo_items_def unique_items_distinct)
  moreover have "extract_todo_items w text language =
     map (\<lambda>i. todo_candidates text language ! i)
       (filter (\<lambda>i. desc_key w (todo_candidates text language ! i)
                  \<notin> desc_key w ` set (take i (todo_candidates text language)))
          [0..<length (todo_candidates text language)])"
    by (simp add: extract_todo_items_def unique_items_positions)
  ultimately show ?thesis
    unfolding key using candidate_descriptions by blast
qed

section \<open>Properties of the export\<close>

lemma all_right_Inl_mem: "all_right xs = Inl e \<Longrightarrow> Inl e \<in> set xs"
proof (induction xs)
  case Nil
  then show ?case by simp
next
  case (Cons x xs)
  then show ?case by (cases x) (auto split: sum.splits)
qed

lemma all_right_fails: "Inl e \<in> set xs \<Longrightarrow> \<exists>e'. all_right xs = Inl e'"
proof (induction xs)
  case Nil
  then show ?case by simp
next
  case (Cons x xs)
  then show ?case by (cases x) (auto split: sum.splits)
qed

lemma json_dumps_only_TypeError: "json_dumps v = Inl e \<Longrightarrow> e = TypeError"
proof (induction v arbitrary: e)
  case (PList vs)
  from PList.prems obtain e' where "all_right (map json_dumps vs) = Inl e'" and "e' = e"
    by (auto split: sum.splits)
  then have "Inl e \<in> set (map json_dumps vs)" by (metis all_right_Inl_mem)
  then obtain v where "v \<in> set vs" "json_dumps v = Inl e" by auto
  then show ?case using PList.IH by blast
next
  case (PDict kvs)
  from PDict.prems obtain e' where "all_right (map (\<lambda>kv. json_dumps (snd kv)) kvs) = Inl e'" and "e' = e"
    by (auto split: sum.splits)
  then have "Inl e \<in> set (map (\<lambda>kv. json_dumps (snd kv)) kvs)" by (metis all_right_Inl_mem)
  then obtain kv where kv: "kv \<in> set kvs" "json_dumps (snd kv) = Inl e" by auto
  have "snd kv \<in> Basic_BNFs.snds kv" by (cases kv) simp
  then show ?case using PDict.IH kv by blast
qed simp_all

lemma json_dumps_PList_fails:
  "v \<in> set vs \<Longrightarrow> json_dumps v = Inl e \<Longrightarrow> json_dumps (PList vs) = Inl TypeError"
proof -
  assume "v \<in> set vs" "json_dumps v = Inl e"
  then have "Inl e \<in> set (map json_dumps vs)" by force
  then obtain e' where e': "all_right (map json_dumps vs) = Inl e'" using all_right_fails by blast
  then have "json_dumps (PList vs) = Inl e'" by simp
  then show ?thesis using json_dumps_only_TypeError by blast
qed

lemma json_dumps_PDict_fails:
  "(k, v) \<in> set kvs \<Longrightarrow> json_dumps v = Inl e \<Longrightarrow> json_dumps (PDict kvs) = Inl TypeError"
proof -
  assume "(k, v) \<in> set kvs" "json_dumps v = Inl e"
  then have "Inl e \<in> set (map (\<lambda>kv. json_dumps (snd kv)) kvs)" by force
  then obtain e' where e': "all_right (map (\<lambda>kv. json_dumps (snd kv)) kvs) = Inl e'"
    using all_right_fails by blast
  then have "json_dumps (PDict kvs) = Inl e'" by simp
  then show ?thesis using json_dumps_only_TypeError by blast
qed

lemma chart_not_serializable: "json_dumps (create_timeline_chart items lang) = Inl TypeError"
proof -
  let ?series = "PDict [(ascii ''type'', PStr (ascii ''scatter'')),
                  (ascii ''data'', PList (map (\<lambda>(i, item). chart_point i item) (enumerate 0 items))),
                  (ascii ''symbolSize'', PLambda),
                  (ascii ''itemStyle'', PDict [(ascii ''color'', PStr (ascii ''#5470c6''))]),
                  (ascii ''emphasis'', PDict [(ascii ''itemStyle'', PDict [(ascii ''color'', PStr (ascii ''#ee6666''))])])]"
  have "json_dumps PLambda = Inl TypeError" by simp
  then have "json_dumps ?series = Inl TypeError"
    by (rule json_dumps_PDict_fails[where k = "ascii ''symbolSize''", rotated]) simp
  then have "json_dumps (PList [?series]) = Inl TypeError"
    by (rule json_dumps_PList_fails[rotated]) simp
  then show ?thesis
    unfolding create_timeline_chart_def
    by (rule json_dumps_PDict_fails[where k = "ascii ''series''", rotated]) simp
qed

lemma result_dict_not_serializable:
  "json_dumps (chart_config r) = Inl e \<Longrightarrow> json_dumps (result_dict r) = Inl TypeError"
proof -
  assume a: "json_dumps (chart_config r) = Inl e"
  let ?timeline = "PDict [(ascii ''data'', PList (map py_of_timeline_item (timeline_data r))),
                      (ascii ''chart_config'', chart_config r)]"
  from a have "json_dumps ?timeline = Inl TypeError"
    by (rule json_dumps_PDict_fails[where k = "ascii ''chart_config''", rotated]) simp
  then show ?thesis
    unfolding result_dict_def
    by (rule json_dumps_PDict_fails[where k = "ascii ''timeline''", rotated]) simp
qed

lemma run_chart_config:
  "process_meeting_text w a file_path lang = Inr r \<Longrightarrow>
     chart_config r = create_timeline_chart (timeline_data r) lang"
  by (auto simp: process_meeting_text_def Let_def split: sum.splits)

text \<open>
  C1. The canonical rendering of the result of a run does not exist: the chart
  configuration of every run holds a function object under \<open>'symbolSize'\<close>, so
  \<open>json.dumps\<close> raises \<open>TypeError\<close> and there is nothing to parse back.
\<close>

theorem export_json_of_run_raises:
  "process_meeting_text w a file_path lang = Inr r \<Longrightarrow> export_results_json r = Inl TypeError"
proof -
  assume "process_meeting_text w a file_path lang = Inr r"
  then have "chart_config r = create_timeline_chart (timeline_data r) lang"
    by (rule run_chart_config)
  then have "json_dumps (chart_config r) = Inl TypeError"
    by (simp add: chart_not_serializable)
  then show ?thesis
    unfolding export_results_json_def by (rule result_dict_not_serializable)
qed

section \<open>The model on concrete inputs\<close>

text \<open>
  The run on \<open>notes.txt\<close> with the language \<open>'en'\<close>: the processed text is
  \<open>Sync 10:30 must plan\<close> (20 characters, the ASCII comma and full stop are not on the
  Chinese allow-list), one sentence, 20 one-character tokens. The readability is
  100 - 20 / 1 / 10 = 98; the formula of the Latin profile would give 100 - 20 / 1 = 80.
\<close>

lemma sample_run:
  "\<exists>r. process_meeting_text sample_world (MeetingMinutesAssistant sample_world None)
          (ascii ''notes.txt'') ''en'' = Inr r \<and>
       char_count (quality r) = 20 \<and> word_count (quality r) = 20 \<and>
       sentence_count (quality r) = 1 \<and> readability_score (quality r) = 98 \<and>
       todo_items r = [] \<and>
       map time (timeline_data r) = [ascii ''10'' @ [0xFF1A] @ ascii ''30'']"
  by (simp add: model_eval sample_world_def sample_notes_def)

theorem completeness_score_by_char_count_witness:
  "\<exists>q. evaluate_text_quality sample_world (TextProcessor sample_world ''zh'') (ascii ''short note'') = Inr q \<and>
       char_count q = 10 \<and> completeness_score q = 30"
proof -
  have "\<exists>q. evaluate_text_quality sample_world (TextProcessor sample_world ''zh'') (ascii ''short note'') = Inr q"
    by (simp add: quality_zh Let_def)
  then obtain q where q: "evaluate_text_quality sample_world (TextProcessor sample_world ''zh'') (ascii ''short note'') = Inr q"
    by blast
  from completeness_score_by_char_count[OF q] have "char_count q = 10 \<and> completeness_score q = 30"
    by (simp add: ascii_def)
  with q show ?thesis by blast
qed

theorem quality_report_uses_chinese_profile_witness:
  "\<exists>r. process_meeting_text sample_world (MeetingMinutesAssistant sample_world None)
          (ascii ''notes.txt'') ''en'' = Inr r \<and>
       char_count (quality r) = 20 \<and> sentence_count (quality r) = 1 \<and> word_count (quality r) = 20 \<and>
       readability_score (quality r) =
         float_round2 sample_world (max 0 (min 100 (float_sub sample_world 100
           (float_div sample_world (float_div sample_world 20 1) 10)))) \<and>
       readability_score (quality r) = 98"
proof -
  from sample_run obtain r where
    run: "process_meeting_text sample_world (MeetingMinutesAssistant sample_world None)
            (ascii ''notes.txt'') ''en'' = Inr r"
    and q: "char_count (quality r) = 20" "word_count (quality r) = 20" "sentence_count (quality r) = 1"
      "readability_score (quality r) = 98"
    by blast
  from quality_report_uses_chinese_profile[OF run]
  have "readability_score (quality r) =
         float_round2 sample_world
           (if 0 < sentence_count (quality r) \<and> 0 < word_count (quality r)
            then max 0 (min 100 (float_sub sample_world 100
                   (float_div sample_world
                      (float_div sample_world (of_nat (char_count (quality r))) (of_nat (sentence_count (quality r))))
                      10)))
            else 0)"
    by blast
  then have "readability_score (quality r) =
         float_round2 sample_world (max 0 (min 100 (float_sub sample_world 100
           (float_div sample_world (float_div sample_world 20 1) 10))))"
    by (simp add: q(1-3) del: max.absorb1 max.absorb2 min.absorb1 min.absorb2)
  with run q show ?thesis by blast
qed

theorem export_json_of_run_raises_witness:
  "\<exists>r. process_meeting_text sample_world (MeetingMinutesAssistant sample_world None)
          (ascii ''notes.txt'') ''en'' = Inr r \<and>
       export_results_json r = Inl TypeError"
proof -
  from sample_run obtain r where
    run: "process_meeting_text sample_world (MeetingMinutesAssistant sample_world None)
            (ascii ''notes.txt'') ''en'' = Inr r"
    by blast
  from export_json_of_run_raises[OF run] run show ?thesis by blast
qed



theorem priority_precedence_witness:
  "evaluate_priority (ascii ''URGENT but optional'') ''en'' = 3 \<and>
   contains (ascii ''optional'') (lower (ascii ''URGENT but optional''))"
proof -
  have "ascii ''urgent'' \<in> set (high_priority_keywords ''en'')"
    by (simp add: high_priority_keywords_def by_language_def high_priority_en_def)
  moreover have "lower (ascii ''URGENT but optional'') = [] @ lower (ascii ''urgent'') @ ascii '' but optional''"
    by (simp add: lower_def ascii_def lower_cp_def is_upper_def)
  ultimately have "\<exists>k \<in> set (high_priority_keywords ''en'').
      \<exists>pre post. lower (ascii ''URGENT but optional'') = pre @ lower k @ post"
    by blast
  then have "evaluate_priority (ascii ''URGENT but optional'') ''en'' = 3"
    using priority_precedence[of "ascii ''URGENT but optional''" "''en''"] by simp
  moreover have "contains (ascii ''optional'') (lower (ascii ''URGENT but optional''))"
    by (simp add: lower_def ascii_def lower_cp_def is_upper_def)
  ultimately show ?thesis by blast
qed

theorem todo_items_deduplicated_witness:
  "map description (todo_candidates repeated_todo ''zh'') = [ascii ''abcd'', ascii ''ABCD'', ascii ''wxyz''] \<and>
   map description (extract_todo_items sample_world repeated_todo ''zh'') = [ascii ''abcd'', ascii ''wxyz'']"
proof -
  have "\<exists>x y z. todo_candidates repeated_todo ''zh'' = [x, y, z] \<and>
          description x = ascii ''abcd'' \<and> description y = ascii ''ABCD'' \<and> description z = ascii ''wxyz''"
    by (simp add: model_eval repeated_todo_def)
  then obtain x y z where c: "todo_candidates repeated_todo ''zh'' = [x, y, z]"
    and d: "description x = ascii ''abcd''" "description y = ascii ''ABCD''" "description z = ascii ''wxyz''"
    by blast
  from todo_items_deduplicated[of sample_world repeated_todo "''zh''"]
  have "extract_todo_items sample_world repeated_todo ''zh'' =
     map (\<lambda>i. todo_candidates repeated_todo ''zh'' ! i)
       (filter (\<lambda>i. strip (str_lower sample_world (description (todo_candidates repeated_todo ''zh'' ! i)))
                  \<notin> (\<lambda>item. strip (str_lower sample_world (description item))) `
                      set (take i (todo_candidates repeated_todo ''zh'')))
          [0..<length (todo_candidates repeated_todo ''zh'')])"
    by blast
  then have "extract_todo_items sample_world repeated_todo ''zh'' = [x, z]"
    by (simp add: c d sample_world_def lower_def strip_def ascii_def lower_cp_def is_upper_def is_space_def)
  with c d show ?thesis by simp
qed

text \<open>
  C2. Two equal sentences get the same \<open>sentence_index\<close>: \<open>sentences.index(sentence)\<close>
  is the position of the first of them.
\<close>

theorem repeated_sentences_share_index:
  "extract_timeline_data w repeated_sentence ''zh'' =
     Inr [\<lparr>time = ascii ''10:30'', event = ascii ''10:30'' @ [0x5F00, 0x4F1A],
            tl_description = ascii ''10:30'' @ [0x5F00, 0x4F1A], sentence_index = 0, has_time = True\<rparr>,
          \<lparr>time = ascii ''10:30'', event = ascii ''10:30'' @ [0x5F00, 0x4F1A],
            tl_description = ascii ''10:30'' @ [0x5F00, 0x4F1A], sentence_index = 0, has_time = True\<rparr>]"
  by (simp add: model_eval repeated_sentence_def)

text \<open>The branch of \<open>event_title\<close> that appends the ellipsis is never taken.\<close>

lemma event_title_plain: "event_title sentence = strip (take 50 sentence)"
proof -
  have "length (strip s) \<le> length s" for s
  proof -
    have "length (strip s) \<le> length (dropWhile is_space s)"
      unfolding strip_def by (metis length_dropWhile_le length_rev)
    also have "\<dots> \<le> length s" by (rule length_dropWhile_le)
    finally show ?thesis .
  qed
  from this[of "take 50 sentence"] have "length (strip (take 50 sentence)) \<le> 50" by simp
  then show ?thesis by (simp add: event_title_def Let_def)
qed

text \<open>
  C9. The title of an event is the first 50 characters of its sentence, stripped, and
  never carries the ellipsis: the test \<open>len(event_title) > 50\<close> comes after the cut.
\<close>

theorem long_sentence_title_without_ellipsis:
  "length long_sentence = 51 \<and>
   extract_timeline_data w long_sentence ''zh'' =
     Inr [\<lparr>time = ascii ''10:30'',
           event = ascii ''10:30aaaaaaaaaaaaaaaaaaaaaaaaaaaaaaaaaaaaaaaaaaaaa'',
           tl_description = long_sentence, sentence_index = 0, has_time = True\<rparr>]"
  by (simp add: model_eval long_sentence_def)

text \<open>Scenario A, evaluated.\<close>

lemma scenario_a_eval:
  "todo_candidates scenario_a ''zh'' = [] \<and>
   concat (map (\<lambda>pattern. findall pattern True True scenario_a) todo_patterns_zh) = [FStr [0x5F20, 0x4E09]] \<and>
   extract_assignee scenario_a ''zh'' = [0x9700, 0x8981, 0x5F20, 0x4E09] \<and>
   extract_due_date scenario_a ''zh'' = Some [0x31, 0x32, 0x6708, 0x33, 0x30, 0x65E5] \<and>
   evaluate_priority scenario_a ''zh'' = 2"
  by (simp add: model_eval scenario_a_def)

text \<open>
  C6 (as amended). Scenario A yields no action item: the only match of the obligation
  patterns is the two characters between the opening word and the verb U+8D1F U+8D23,
  too short for the guard \<open>len(description) > 3\<close>. On the whole text the assignee
  derivation gives the first four characters (which contain the name), the due-date
  derivation gives the month-day date at the end, and the priority derivation gives
  medium (2).
\<close>

theorem scenario_a_yields_no_item:
  "extract_todo_items w scenario_a ''zh'' = [] \<and>
   concat (map (\<lambda>pattern. findall pattern True True scenario_a) todo_patterns_zh) = [FStr [0x5F20, 0x4E09]] \<and>
   extract_assignee scenario_a ''zh'' = [0x9700, 0x8981, 0x5F20, 0x4E09] \<and>
   contains [0x5F20, 0x4E09] (extract_assignee scenario_a ''zh'') \<and>
   extract_due_date scenario_a ''zh'' = Some [0x31, 0x32, 0x6708, 0x33, 0x30, 0x65E5] \<and>
   evaluate_priority scenario_a ''zh'' = 2"
  using scenario_a_eval by (simp add: extract_todo_items_def)

text \<open>C6 as stated fails: the extraction does not yield one item.\<close>

theorem scenario_a_counterexample:
  "\<not> (\<exists>w item. extract_todo_items w scenario_a ''zh'' = [item] \<and>
        contains [0x5F20, 0x4E09] (assignee item) \<and> priority item = 2)"
  using scenario_a_eval by (simp add: extract_todo_items_def)

text \<open>Scenario B, evaluated.\<close>

lemma scenario_b_eval:
  "todo_candidates scenario_b ''en'' = [] \<and>
   concat (map (\<lambda>pattern. findall pattern True True scenario_b) todo_patterns_en) = [] \<and>
   evaluate_priority scenario_b ''en'' = 3"
  by (simp add: model_eval scenario_b_def)

text \<open>
  C7 (as amended). Scenario B yields no action item: no obligation pattern matches the
  sentence. The priority derivation on the sentence itself gives high (3).
\<close>

theorem scenario_b_yields_no_item:
  "extract_todo_items w scenario_b ''en'' = [] \<and>
   concat (map (\<lambda>pattern. findall pattern True True scenario_b) todo_patterns_en) = [] \<and>
   evaluate_priority scenario_b ''en'' = 3"
  using scenario_b_eval by (simp add: extract_todo_items_def)

text \<open>C7 as stated fails: the extraction does not yield one item.\<close>

theorem scenario_b_counterexample:
  "\<not> (\<exists>w item. extract_todo_items w scenario_b ''en'' = [item] \<and> priority item = 3)"
  using scenario_b_eval by (simp add: extract_todo_items_def)

text \<open>What does hold of the order: the indices never decrease.\<close>

lemma sorted_timeline:
  "extract_timeline_data w text language = Inr items \<Longrightarrow> sorted (map sentence_index items)"
  by (auto simp: extract_timeline_data_def split: sum.splits)

end
